theory Spec2Isabelle
  imports Main
begin

section \<open>Data model\<close>

text \<open>
  The conference backend is a set of gin handlers and two middlewares over two external
  collaborators: the Firebase Auth client (identity provider) and the Firestore client
  (document store). The structs of \<^verbatim>\<open>internal/models/user.go\<close> become records; a
  \<^verbatim>\<open>time.Time\<close> is an abstract instant, with \<open>0\<close> as Go's zero time. Field names carry
  a prefix where two structs share a name.
\<close>

type_synonym Time = nat

record User =
  UID :: string
  Email :: string
  DisplayName :: string
  PhotoURL :: string
  Provider :: string
  EmailVerified :: bool
  CreatedAt :: Time
  UpdatedAt :: Time
  LastLoginAt :: Time

record Registration =
  r_ID :: string
  r_UserID :: string
  r_FirstName :: string
  r_LastName :: string
  r_Email :: string
  r_Phone :: string
  r_Organization :: string
  r_JobTitle :: string
  r_Country :: string
  r_City :: string
  r_DietaryReqs :: string
  r_SpecialNeeds :: string
  r_TicketType :: string
  r_SessionsOfInt :: "string list"
  r_PaymentStatus :: string
  r_RegistrationDate :: Time
  r_CreatedAt :: Time
  r_UpdatedAt :: Time

record RegistrationInput =
  i_FirstName :: string
  i_LastName :: string
  i_Email :: string
  i_Phone :: string
  i_Organization :: string
  i_JobTitle :: string
  i_Country :: string
  i_City :: string
  i_DietaryReqs :: string
  i_SpecialNeeds :: string
  i_TicketType :: string
  i_SessionsOfInt :: "string list"

text \<open>The provider's decoded token and user record (\<^verbatim>\<open>auth.Token\<close>, \<^verbatim>\<open>auth.UserRecord\<close>),
  with the fields the program reads.\<close>

record Token =
  tok_UID :: string

record UserRecord =
  ur_UID :: string
  ur_Email :: string
  ur_DisplayName :: string
  ur_PhotoURL :: string
  ur_EmailVerified :: bool

text \<open>Errors are values. \<open>Done\<close> is \<^verbatim>\<open>iterator.Done\<close>; \<open>ClientError\<close> carries the text of an
  \<^verbatim>\<open>errors.New\<close> of \<^verbatim>\<open>internal/firebase/client.go\<close>.\<close>

datatype error =
    Done
  | NotFound
  | AlreadyExists
  | Unavailable
  | DecodeFailed
  | InvalidToken
  | UserNotFound
  | BindingFailed
  | ClientError string

text \<open>A response message is a literal, or a literal followed by \<^verbatim>\<open>err.Error()\<close>.\<close>

datatype message = Msg string | MsgErr string error

record H =
  success :: bool
  message :: string

record RegistrationResponse =
  rr_Success :: bool
  rr_Message :: message
  rr_Registration :: "Registration option"

record AuthResponse =
  ar_Success :: bool
  ar_Message :: string
  ar_User :: "User option"
  ar_Token :: string

text \<open>The request-scoped gin context: the keys the middleware sets. A value stored under
  \<^verbatim>\<open>"user"\<close> is a \<^verbatim>\<open>*models.User\<close> or something else (the failed type assertion of the
  handlers).\<close>

datatype ctx_value = UserPtr User | OtherValue

record Context =
  ctx_user :: "ctx_value option"
  ctx_uid :: "string option"
  ctx_token :: "Token option"

definition no_identity :: Context where
  "no_identity = \<lparr>ctx_user = None, ctx_uid = None, ctx_token = None\<rparr>"

text \<open>A middleware either aborts the chain with a JSON response or calls \<^verbatim>\<open>c.Next()\<close>
  with the context it has built.\<close>

datatype middleware_result = Abort nat H | Next Context

section \<open>External collaborators\<close>

text \<open>
  The Firebase Auth client and the Firestore client are libraries, not code of the
  repository. They are modelled by the contract the specification gives them (sections 1
  and 6): \<^verbatim>\<open>verify\<close> and \<^verbatim>\<open>fetchProfile\<close> by subject id for the provider;
  get, query by one field with a limit of one, create with a generated id, set, set-merge
  and delete of documents by collection and document id for the store, with no uniqueness
  constraint on any field. Any remote call may fail.

  Firestore documents are maps from field names to values; a collection is the list of
  its documents in store order, each with its document id. The world holds the provider's
  state, the store's collections, and what the environment decides: whether the \<open>n\<close>-th
  remote call fails in transport (\<open>outage\<close>), the id the store generates when that call
  is an \<^verbatim>\<open>Add\<close> (\<open>auto_id\<close>), and the readings of \<^verbatim>\<open>time.Now()\<close> (\<open>clock\<close>). Every
  remote call is appended to \<open>calls\<close>.
\<close>

datatype fsvalue =
    VString string
  | VBool bool
  | VTime Time
  | VStrings "string list"
  | VNumber int

type_synonym document = "string \<rightharpoonup> fsvalue"

datatype call =
    AuthVerify string
  | AuthGetUser string
  | StoreGet string string
  | StoreQuery string string fsvalue
  | StoreAdd string
  | StoreSet string string
  | StoreSetMerge string string
  | StoreDelete string string

record world =
  auth_ready :: bool
  id_tokens :: "string \<rightharpoonup> Token"
  accounts :: "UserRecord list"
  collections :: "string \<Rightarrow> (string \<times> document) list"
  outage :: "nat \<Rightarrow> bool"
  auto_id :: "nat \<Rightarrow> string"
  clock :: "nat \<Rightarrow> Time"
  reads :: nat
  calls :: "call list"

definition rpc :: "world \<Rightarrow> call \<Rightarrow> world \<times> bool" where
  "rpc w c = (w\<lparr>calls := calls w @ [c]\<rparr>, outage w (length (calls w)))"

definition time_Now :: "world \<Rightarrow> world \<times> Time" where
  "time_Now w = (w\<lparr>reads := Suc (reads w)\<rparr>, clock w (reads w))"

subsection \<open>Identity provider\<close>

definition Auth_VerifyIDToken :: "world \<Rightarrow> string \<Rightarrow> world \<times> (error + Token)" where
  "Auth_VerifyIDToken w idToken =
     (case rpc w (AuthVerify idToken) of (w', down) \<Rightarrow>
        if down then (w', Inl Unavailable)
        else (case id_tokens w idToken of
                None \<Rightarrow> (w', Inl InvalidToken)
              | Some token \<Rightarrow> (w', Inr token)))"

definition Auth_GetUser :: "world \<Rightarrow> string \<Rightarrow> world \<times> (error + UserRecord)" where
  "Auth_GetUser w uid =
     (case rpc w (AuthGetUser uid) of (w', down) \<Rightarrow>
        if down then (w', Inl Unavailable)
        else (case find (\<lambda>r. ur_UID r = uid) (accounts w) of
                None \<Rightarrow> (w', Inl UserNotFound)
              | Some userRecord \<Rightarrow> (w', Inr userRecord)))"

text \<open>The wrappers of \<^verbatim>\<open>internal/firebase/client.go\<close>: they reject an uninitialised client
  and an empty argument before the provider is called.\<close>

definition VerifyIDToken :: "world \<Rightarrow> string \<Rightarrow> world \<times> (error + Token)" where
  "VerifyIDToken w idToken =
     (if \<not> auth_ready w then (w, Inl (ClientError ''firebase: auth client is not initialized''))
      else if idToken = [] then (w, Inl (ClientError ''firebase: id token is required''))
      else Auth_VerifyIDToken w idToken)"

definition GetUser :: "world \<Rightarrow> string \<Rightarrow> world \<times> (error + UserRecord)" where
  "GetUser w uid =
     (if \<not> auth_ready w then (w, Inl (ClientError ''firebase: auth client is not initialized''))
      else if uid = [] then (w, Inl (ClientError ''firebase: uid is required''))
      else Auth_GetUser w uid)"

subsection \<open>Document store\<close>

definition Doc_Get :: "world \<Rightarrow> string \<Rightarrow> string \<Rightarrow> world \<times> document option \<times> error option" where
  "Doc_Get w coll ref =
     (case rpc w (StoreGet coll ref) of (w', down) \<Rightarrow>
        if down then (w', None, Some Unavailable)
        else (case map_of (collections w coll) ref of
                None \<Rightarrow> (w', None, Some NotFound)
              | Some d \<Rightarrow> (w', Some d, None)))"

text \<open>\<^verbatim>\<open>Where(field, "==", v).Limit(1).Documents(ctx)\<close> followed by one \<^verbatim>\<open>iter.Next()\<close>.\<close>

definition Query_Next :: "world \<Rightarrow> string \<Rightarrow> string \<Rightarrow> fsvalue \<Rightarrow> world \<times> (error + string \<times> document)" where
  "Query_Next w coll field v =
     (case rpc w (StoreQuery coll field v) of (w', down) \<Rightarrow>
        if down then (w', Inl Unavailable)
        else (case find (\<lambda>(ref, d). d field = Some v) (collections w coll) of
                None \<Rightarrow> (w', Inl Done)
              | Some hit \<Rightarrow> (w', Inr hit)))"

definition put_collection :: "world \<Rightarrow> string \<Rightarrow> (string \<times> document) list \<Rightarrow> world" where
  "put_collection w coll ds = w\<lparr>collections := (collections w)(coll := ds)\<rparr>"

definition Coll_Add :: "world \<Rightarrow> string \<Rightarrow> document \<Rightarrow> world \<times> (error + string)" where
  "Coll_Add w coll d =
     (case rpc w (StoreAdd coll) of (w', down) \<Rightarrow>
        let ref = auto_id w (length (calls w)) in
        if down then (w', Inl Unavailable)
        else if ref \<in> set (map fst (collections w coll)) then (w', Inl AlreadyExists)
        else (put_collection w' coll (collections w coll @ [(ref, d)]), Inr ref))"

definition write_doc :: "string \<Rightarrow> (document option \<Rightarrow> document) \<Rightarrow> (string \<times> document) list \<Rightarrow> (string \<times> document) list" where
  "write_doc ref f ds =
     (if ref \<in> set (map fst ds)
      then map (\<lambda>(r, d). if r = ref then (r, f (Some d)) else (r, d)) ds
      else ds @ [(ref, f None)])"

text \<open>\<^verbatim>\<open>Doc(ref).Set(ctx, data)\<close> replaces the whole document.\<close>

definition Doc_Set :: "world \<Rightarrow> string \<Rightarrow> string \<Rightarrow> document \<Rightarrow> world \<times> error option" where
  "Doc_Set w coll ref d =
     (case rpc w (StoreSet coll ref) of (w', down) \<Rightarrow>
        if down then (w', Some Unavailable)
        else (put_collection w' coll (write_doc ref (\<lambda>_. d) (collections w coll)), None))"

text \<open>\<^verbatim>\<open>Doc(ref).Set(ctx, updates, firestore.MergeAll)\<close> overwrites the fields of \<open>updates\<close>
  and keeps the others.\<close>

definition Doc_SetMerge :: "world \<Rightarrow> string \<Rightarrow> string \<Rightarrow> document \<Rightarrow> world \<times> error option" where
  "Doc_SetMerge w coll ref updates =
     (case rpc w (StoreSetMerge coll ref) of (w', down) \<Rightarrow>
        if down then (w', Some Unavailable)
        else (put_collection w' coll
                (write_doc ref (\<lambda>old. case old of None \<Rightarrow> updates | Some d \<Rightarrow> d ++ updates)
                   (collections w coll)), None))"

definition Doc_Delete :: "world \<Rightarrow> string \<Rightarrow> string \<Rightarrow> world \<times> error option" where
  "Doc_Delete w coll ref =
     (case rpc w (StoreDelete coll ref) of (w', down) \<Rightarrow>
        if down then (w', Some Unavailable)
        else (put_collection w' coll (filter (\<lambda>(r, d). r \<noteq> ref) (collections w coll)), None))"

subsection \<open>Struct encoding and \<^verbatim>\<open>DataTo\<close>\<close>

text \<open>
  A struct is written under its \<^verbatim>\<open>firestore\<close> tags (\<^verbatim>\<open>firestore:"-"\<close> is not written).
  \<^verbatim>\<open>DataTo\<close> fails when a tagged field holds a value of another type; an absent field
  leaves the zero value and untagged fields of the document are ignored.
\<close>

datatype kind = KString | KBool | KTime | KStrings

primrec conforms :: "kind \<Rightarrow> fsvalue \<Rightarrow> bool" where
  "conforms KString v = (case v of VString s \<Rightarrow> True | _ \<Rightarrow> False)"
| "conforms KBool v = (case v of VBool b \<Rightarrow> True | _ \<Rightarrow> False)"
| "conforms KTime v = (case v of VTime t \<Rightarrow> True | _ \<Rightarrow> False)"
| "conforms KStrings v = (case v of VStrings ss \<Rightarrow> True | _ \<Rightarrow> False)"

definition decodable :: "(string \<times> kind) list \<Rightarrow> document \<Rightarrow> bool" where
  "decodable schema d =
     list_all (\<lambda>(k, t). case d k of None \<Rightarrow> True | Some v \<Rightarrow> conforms t v) schema"

definition get_string :: "document \<Rightarrow> string \<Rightarrow> string" where
  "get_string d k = (case d k of Some (VString s) \<Rightarrow> s | _ \<Rightarrow> [])"

definition get_bool :: "document \<Rightarrow> string \<Rightarrow> bool" where
  "get_bool d k = (case d k of Some (VBool b) \<Rightarrow> b | _ \<Rightarrow> False)"

definition get_time :: "document \<Rightarrow> string \<Rightarrow> Time" where
  "get_time d k = (case d k of Some (VTime t) \<Rightarrow> t | _ \<Rightarrow> 0)"

definition get_strings :: "document \<Rightarrow> string \<Rightarrow> string list" where
  "get_strings d k = (case d k of Some (VStrings ss) \<Rightarrow> ss | _ \<Rightarrow> [])"

definition User_schema :: "(string \<times> kind) list" where
  "User_schema =
     [(''uid'', KString), (''email'', KString), (''displayName'', KString),
      (''photoUrl'', KString), (''provider'', KString), (''emailVerified'', KBool),
      (''createdAt'', KTime), (''updatedAt'', KTime), (''lastLoginAt'', KTime)]"

definition encode_User :: "User \<Rightarrow> document" where
  "encode_User u =
     [''uid'' \<mapsto> VString (UID u),
      ''email'' \<mapsto> VString (Email u),
      ''displayName'' \<mapsto> VString (DisplayName u),
      ''photoUrl'' \<mapsto> VString (PhotoURL u),
      ''provider'' \<mapsto> VString (Provider u),
      ''emailVerified'' \<mapsto> VBool (EmailVerified u),
      ''createdAt'' \<mapsto> VTime (CreatedAt u),
      ''updatedAt'' \<mapsto> VTime (UpdatedAt u),
      ''lastLoginAt'' \<mapsto> VTime (LastLoginAt u)]"

definition DataTo_User :: "document \<Rightarrow> error + User" where
  "DataTo_User d =
     (if decodable User_schema d
      then Inr \<lparr>UID = get_string d ''uid'',
                Email = get_string d ''email'',
                DisplayName = get_string d ''displayName'',
                PhotoURL = get_string d ''photoUrl'',
                Provider = get_string d ''provider'',
                EmailVerified = get_bool d ''emailVerified'',
                CreatedAt = get_time d ''createdAt'',
                UpdatedAt = get_time d ''updatedAt'',
                LastLoginAt = get_time d ''lastLoginAt''\<rparr>
      else Inl DecodeFailed)"

definition Registration_schema :: "(string \<times> kind) list" where
  "Registration_schema =
     [(''userId'', KString), (''firstName'', KString), (''lastName'', KString),
      (''email'', KString), (''phone'', KString), (''organization'', KString),
      (''jobTitle'', KString), (''country'', KString), (''city'', KString),
      (''dietaryRequirements'', KString), (''specialNeeds'', KString),
      (''ticketType'', KString), (''sessionsOfInterest'', KStrings),
      (''paymentStatus'', KString), (''registrationDate'', KTime),
      (''createdAt'', KTime), (''updatedAt'', KTime)]"

definition encode_Registration :: "Registration \<Rightarrow> document" where
  "encode_Registration r =
     [''userId'' \<mapsto> VString (r_UserID r),
      ''firstName'' \<mapsto> VString (r_FirstName r),
      ''lastName'' \<mapsto> VString (r_LastName r),
      ''email'' \<mapsto> VString (r_Email r),
      ''phone'' \<mapsto> VString (r_Phone r),
      ''organization'' \<mapsto> VString (r_Organization r),
      ''jobTitle'' \<mapsto> VString (r_JobTitle r),
      ''country'' \<mapsto> VString (r_Country r),
      ''city'' \<mapsto> VString (r_City r),
      ''dietaryRequirements'' \<mapsto> VString (r_DietaryReqs r),
      ''specialNeeds'' \<mapsto> VString (r_SpecialNeeds r),
      ''ticketType'' \<mapsto> VString (r_TicketType r),
      ''sessionsOfInterest'' \<mapsto> VStrings (r_SessionsOfInt r),
      ''paymentStatus'' \<mapsto> VString (r_PaymentStatus r),
      ''registrationDate'' \<mapsto> VTime (r_RegistrationDate r),
      ''createdAt'' \<mapsto> VTime (r_CreatedAt r),
      ''updatedAt'' \<mapsto> VTime (r_UpdatedAt r)]"

definition DataTo_Registration :: "document \<Rightarrow> error + Registration" where
  "DataTo_Registration d =
     (if decodable Registration_schema d
      then Inr \<lparr>r_ID = [],
                r_UserID = get_string d ''userId'',
                r_FirstName = get_string d ''firstName'',
                r_LastName = get_string d ''lastName'',
                r_Email = get_string d ''email'',
                r_Phone = get_string d ''phone'',
                r_Organization = get_string d ''organization'',
                r_JobTitle = get_string d ''jobTitle'',
                r_Country = get_string d ''country'',
                r_City = get_string d ''city'',
                r_DietaryReqs = get_string d ''dietaryRequirements'',
                r_SpecialNeeds = get_string d ''specialNeeds'',
                r_TicketType = get_string d ''ticketType'',
                r_SessionsOfInt = get_strings d ''sessionsOfInterest'',
                r_PaymentStatus = get_string d ''paymentStatus'',
                r_RegistrationDate = get_time d ''registrationDate'',
                r_CreatedAt = get_time d ''createdAt'',
                r_UpdatedAt = get_time d ''updatedAt''\<rparr>
      else Inl DecodeFailed)"

section \<open>Authentication middleware (\<^verbatim>\<open>internal/middleware/auth.go\<close>)\<close>

text \<open>\<^verbatim>\<open>strings.Split(s, " ")\<close>: the pieces of \<open>s\<close> between occurrences of the separator;
  an input without separator, also the empty one, is a single piece.\<close>

fun strings_Split :: "string \<Rightarrow> char \<Rightarrow> string list" where
  "strings_Split [] sep = [[]]"
| "strings_Split (c # cs) sep =
     (if c = sep then [] # strings_Split cs sep
      else (case strings_Split cs sep of
              [] \<Rightarrow> [[c]]
            | p # ps \<Rightarrow> (c # p) # ps))"

text \<open>\<^verbatim>\<open>c.GetHeader\<close> returns the empty string for an absent header.\<close>

definition GetHeader :: "string option \<Rightarrow> string" where
  "GetHeader h = (case h of None \<Rightarrow> [] | Some v \<Rightarrow> v)"

definition unauthorized :: "string \<Rightarrow> middleware_result" where
  "unauthorized m = Abort 401 \<lparr>success = False, message = m\<rparr>"

definition auth_user :: "UserRecord \<Rightarrow> User" where
  "auth_user userRecord =
     \<lparr>UID = ur_UID userRecord,
      Email = ur_Email userRecord,
      DisplayName = ur_DisplayName userRecord,
      PhotoURL = ur_PhotoURL userRecord,
      Provider = [],
      EmailVerified = ur_EmailVerified userRecord,
      CreatedAt = 0,
      UpdatedAt = 0,
      LastLoginAt = 0\<rparr>"

definition merge_firestore_user :: "User \<Rightarrow> document option \<Rightarrow> error option \<Rightarrow> User" where
  "merge_firestore_user user doc err =
     (case (err, doc) of
        (None, Some d) \<Rightarrow>
          (case DataTo_User d of
             Inr firestoreUser \<Rightarrow>
               user\<lparr>CreatedAt := CreatedAt firestoreUser,
                    UpdatedAt := UpdatedAt firestoreUser,
                    LastLoginAt := LastLoginAt firestoreUser,
                    Provider := Provider firestoreUser\<rparr>
           | Inl e \<Rightarrow> user)
      | _ \<Rightarrow> user)"

definition set_identity :: "User \<Rightarrow> Token \<Rightarrow> Context" where
  "set_identity user token =
     \<lparr>ctx_user = Some (UserPtr user), ctx_uid = Some (tok_UID token), ctx_token = Some token\<rparr>"

definition RequireAuth :: "world \<Rightarrow> string option \<Rightarrow> world \<times> middleware_result" where
  "RequireAuth w header =
     (let authHeader = GetHeader header in
      if authHeader = [] then (w, unauthorized ''Authorization header is required'')
      else
        (case strings_Split authHeader (CHR '' '') of
           [scheme, idToken] \<Rightarrow>
             if scheme \<noteq> ''Bearer''
             then (w, unauthorized ''Invalid authorization header format. Use: Bearer <token>'')
             else
               (case VerifyIDToken w idToken of
                  (w1, Inl err) \<Rightarrow> (w1, unauthorized ''Invalid or expired token'')
                | (w1, Inr token) \<Rightarrow>
                    (case GetUser w1 (tok_UID token) of
                       (w2, Inl err) \<Rightarrow> (w2, unauthorized ''Failed to retrieve user information'')
                     | (w2, Inr userRecord) \<Rightarrow>
                         (case Doc_Get w2 ''users'' (tok_UID token) of
                            (w3, doc, err) \<Rightarrow>
                              (w3, Next (set_identity
                                     (merge_firestore_user (auth_user userRecord) doc err) token)))))
         | _ \<Rightarrow> (w, unauthorized ''Invalid authorization header format. Use: Bearer <token>'')))"

definition OptionalAuth :: "world \<Rightarrow> string option \<Rightarrow> world \<times> middleware_result" where
  "OptionalAuth w header =
     (let authHeader = GetHeader header in
      if authHeader = [] then (w, Next no_identity)
      else
        (case strings_Split authHeader (CHR '' '') of
           [scheme, idToken] \<Rightarrow>
             if scheme \<noteq> ''Bearer'' then (w, Next no_identity)
             else
               (case VerifyIDToken w idToken of
                  (w1, Inl err) \<Rightarrow> (w1, Next no_identity)
                | (w1, Inr token) \<Rightarrow>
                    (case GetUser w1 (tok_UID token) of
                       (w2, Inl err) \<Rightarrow> (w2, Next no_identity)
                     | (w2, Inr userRecord) \<Rightarrow>
                         (w2, Next (set_identity (auth_user userRecord) token))))
         | _ \<Rightarrow> (w, Next no_identity)))"

text \<open>The header shape of the specification: the literal \<^verbatim>\<open>Bearer\<close>, one space, and a
  token without a space.\<close>

definition bearer_shape :: "string \<Rightarrow> bool" where
  "bearer_shape h \<longleftrightarrow> take 7 h = ''Bearer '' \<and> CHR '' '' \<notin> set (drop 7 h)"

section \<open>Registration handlers (\<^verbatim>\<open>internal/handlers/registration.go\<close>)\<close>

text \<open>
  \<^verbatim>\<open>c.ShouldBindJSON(&input)\<close> decodes the body and then checks the \<^verbatim>\<open>binding\<close> tags of
  \<^verbatim>\<open>RegistrationInput\<close>: \<^verbatim>\<open>required\<close> rejects the empty string, \<^verbatim>\<open>email\<close> is the validator
  library's format check, taken as the parameter \<open>is_email\<close>. A body that does not decode
  is \<open>None\<close>.
\<close>

definition binding_ok :: "(string \<Rightarrow> bool) \<Rightarrow> RegistrationInput \<Rightarrow> bool" where
  "binding_ok is_email input \<longleftrightarrow>
     i_FirstName input \<noteq> [] \<and>
     i_LastName input \<noteq> [] \<and>
     (i_Email input \<noteq> [] \<and> is_email (i_Email input)) \<and>
     i_Country input \<noteq> [] \<and>
     i_TicketType input \<noteq> []"

definition ShouldBindJSON :: "(string \<Rightarrow> bool) \<Rightarrow> RegistrationInput option \<Rightarrow> error + RegistrationInput" where
  "ShouldBindJSON is_email body =
     (case body of
        None \<Rightarrow> Inl BindingFailed
      | Some input \<Rightarrow> if binding_ok is_email input then Inr input else Inl BindingFailed)"

definition reply :: "bool \<Rightarrow> message \<Rightarrow> Registration option \<Rightarrow> RegistrationResponse" where
  "reply ok m reg = \<lparr>rr_Success = ok, rr_Message = m, rr_Registration = reg\<rparr>"

definition getUserRegistration :: "world \<Rightarrow> string \<Rightarrow> world \<times> (error + Registration)" where
  "getUserRegistration w userID =
     (case Query_Next w ''registrations'' ''userId'' (VString userID) of
        (w', Inl err) \<Rightarrow> (w', Inl err)
      | (w', Inr (ref, doc)) \<Rightarrow>
          (case DataTo_Registration doc of
             Inl err \<Rightarrow> (w', Inl err)
           | Inr registration \<Rightarrow> (w', Inr (registration\<lparr>r_ID := ref\<rparr>))))"

definition new_registration :: "User \<Rightarrow> RegistrationInput \<Rightarrow> Time \<Rightarrow> Registration" where
  "new_registration user input now =
     \<lparr>r_ID = [],
      r_UserID = UID user,
      r_FirstName = i_FirstName input,
      r_LastName = i_LastName input,
      r_Email = i_Email input,
      r_Phone = i_Phone input,
      r_Organization = i_Organization input,
      r_JobTitle = i_JobTitle input,
      r_Country = i_Country input,
      r_City = i_City input,
      r_DietaryReqs = i_DietaryReqs input,
      r_SpecialNeeds = i_SpecialNeeds input,
      r_TicketType = i_TicketType input,
      r_SessionsOfInt = i_SessionsOfInt input,
      r_PaymentStatus = ''pending'',
      r_RegistrationDate = now,
      r_CreatedAt = now,
      r_UpdatedAt = now\<rparr>"

definition CreateRegistration ::
  "(string \<Rightarrow> bool) \<Rightarrow> world \<Rightarrow> Context \<Rightarrow> RegistrationInput option \<Rightarrow> world \<times> nat \<times> RegistrationResponse" where
  "CreateRegistration is_email w c body =
     (case ctx_user c of
        None \<Rightarrow> (w, 401, reply False (Msg ''User not authenticated'') None)
      | Some OtherValue \<Rightarrow> (w, 500, reply False (Msg ''Failed to retrieve user information'') None)
      | Some (UserPtr user) \<Rightarrow>
          (case ShouldBindJSON is_email body of
             Inl err \<Rightarrow> (w, 400, reply False (MsgErr ''Invalid request: '' err) None)
           | Inr input \<Rightarrow>
               (case getUserRegistration w (UID user) of
                  (w1, Inr existingReg) \<Rightarrow>
                    (w1, 409, reply False (Msg ''User already has a registration. Please update instead.'')
                                (Some existingReg))
                | (w1, Inl discarded) \<Rightarrow>
                    (case time_Now w1 of (w2, now) \<Rightarrow>
                       let registration = new_registration user input now in
                       (case Coll_Add w2 ''registrations'' (encode_Registration registration) of
                          (w3, Inl err) \<Rightarrow>
                            (w3, 500, reply False (MsgErr ''Failed to create registration: '' err) None)
                        | (w3, Inr docID) \<Rightarrow>
                            (w3, 201, reply True (Msg ''Registration created successfully'')
                                        (Some (registration\<lparr>r_ID := docID\<rparr>))))))))"

definition GetMyRegistration :: "world \<Rightarrow> Context \<Rightarrow> world \<times> nat \<times> RegistrationResponse" where
  "GetMyRegistration w c =
     (case ctx_user c of
        None \<Rightarrow> (w, 401, reply False (Msg ''User not authenticated'') None)
      | Some OtherValue \<Rightarrow> (w, 500, reply False (Msg ''Failed to retrieve user information'') None)
      | Some (UserPtr user) \<Rightarrow>
          (case getUserRegistration w (UID user) of
             (w1, Inl err) \<Rightarrow> (w1, 404, reply False (Msg ''Registration not found'') None)
           | (w1, Inr registration) \<Rightarrow>
               (w1, 200, reply True (Msg ''Registration retrieved successfully'') (Some registration))))"

definition updates_map :: "RegistrationInput \<Rightarrow> Time \<Rightarrow> document" where
  "updates_map input now =
     [''firstName'' \<mapsto> VString (i_FirstName input),
      ''lastName'' \<mapsto> VString (i_LastName input),
      ''email'' \<mapsto> VString (i_Email input),
      ''phone'' \<mapsto> VString (i_Phone input),
      ''organization'' \<mapsto> VString (i_Organization input),
      ''jobTitle'' \<mapsto> VString (i_JobTitle input),
      ''country'' \<mapsto> VString (i_Country input),
      ''city'' \<mapsto> VString (i_City input),
      ''dietaryRequirements'' \<mapsto> VString (i_DietaryReqs input),
      ''specialNeeds'' \<mapsto> VString (i_SpecialNeeds input),
      ''ticketType'' \<mapsto> VString (i_TicketType input),
      ''sessionsOfInterest'' \<mapsto> VStrings (i_SessionsOfInt input),
      ''updatedAt'' \<mapsto> VTime now]"

definition UpdateRegistration ::
  "(string \<Rightarrow> bool) \<Rightarrow> world \<Rightarrow> Context \<Rightarrow> RegistrationInput option \<Rightarrow> world \<times> nat \<times> RegistrationResponse" where
  "UpdateRegistration is_email w c body =
     (case ctx_user c of
        None \<Rightarrow> (w, 401, reply False (Msg ''User not authenticated'') None)
      | Some OtherValue \<Rightarrow> (w, 500, reply False (Msg ''Failed to retrieve user information'') None)
      | Some (UserPtr user) \<Rightarrow>
          (case ShouldBindJSON is_email body of
             Inl err \<Rightarrow> (w, 400, reply False (MsgErr ''Invalid request: '' err) None)
           | Inr input \<Rightarrow>
               (case getUserRegistration w (UID user) of
                  (w1, Inl err) \<Rightarrow>
                    (w1, 404, reply False (Msg ''Registration not found. Please create one first.'') None)
                | (w1, Inr existingReg) \<Rightarrow>
                    (case time_Now w1 of (w2, now) \<Rightarrow>
                       (case Doc_SetMerge w2 ''registrations'' (r_ID existingReg) (updates_map input now) of
                          (w3, Some err) \<Rightarrow>
                            (w3, 500, reply False (MsgErr ''Failed to update registration: '' err) None)
                        | (w3, None) \<Rightarrow>
                            (case getUserRegistration w3 (UID user) of
                               (w4, updatedReg) \<Rightarrow>
                                 (w4, 200, reply True (Msg ''Registration updated successfully'')
                                             (case updatedReg of
                                                Inl discarded \<Rightarrow> None
                                              | Inr reg \<Rightarrow> Some reg))))))))"

definition DeleteRegistration :: "world \<Rightarrow> Context \<Rightarrow> world \<times> nat \<times> RegistrationResponse" where
  "DeleteRegistration w c =
     (case ctx_user c of
        None \<Rightarrow> (w, 401, reply False (Msg ''User not authenticated'') None)
      | Some OtherValue \<Rightarrow> (w, 500, reply False (Msg ''Failed to retrieve user information'') None)
      | Some (UserPtr user) \<Rightarrow>
          (case getUserRegistration w (UID user) of
             (w1, Inl err) \<Rightarrow> (w1, 404, reply False (Msg ''Registration not found'') None)
           | (w1, Inr existingReg) \<Rightarrow>
               (case Doc_Delete w1 ''registrations'' (r_ID existingReg) of
                  (w2, Some err) \<Rightarrow>
                    (w2, 500, reply False (MsgErr ''Failed to delete registration: '' err) None)
                | (w2, None) \<Rightarrow>
                    (w2, 200, reply True (Msg ''Registration deleted successfully'') None))))"

section \<open>Login handler (\<^verbatim>\<open>internal/handlers/auth.go\<close>)\<close>

text \<open>\<open>saveUserToFirestore\<close> mutates the user it is given; the model returns it.\<close>

definition saveUserToFirestore :: "world \<Rightarrow> User \<Rightarrow> world \<times> User \<times> error option" where
  "saveUserToFirestore w user =
     (case Doc_Get w ''users'' (UID user) of
        (w1, doc, err) \<Rightarrow>
          (case (case (err, doc) of
                   (None, Some d) \<Rightarrow>
                     (case DataTo_User d of
                        Inr existingUser \<Rightarrow> (w1, user\<lparr>CreatedAt := CreatedAt existingUser\<rparr>)
                      | Inl e \<Rightarrow> (w1, user))
                 | _ \<Rightarrow> (case time_Now w1 of (w', t) \<Rightarrow> (w', user\<lparr>CreatedAt := t\<rparr>))) of
             (w2, user1) \<Rightarrow>
               (case time_Now w2 of
                  (w3, t) \<Rightarrow>
                    let user2 = user1\<lparr>UpdatedAt := t\<rparr> in
                    (case Doc_Set w3 ''users'' (UID user) (encode_User user2) of
                       (w4, err') \<Rightarrow> (w4, user2, err')))))"

definition auth_reply :: "bool \<Rightarrow> string \<Rightarrow> User option \<Rightarrow> string \<Rightarrow> AuthResponse" where
  "auth_reply ok m u t = \<lparr>ar_Success = ok, ar_Message = m, ar_User = u, ar_Token = t\<rparr>"

text \<open>The profile a login builds from the provider's user record: the provider tag and
  the login time are set, the verified flag and the other two timestamps are left at
  their zero values.\<close>

definition login_user :: "UserRecord \<Rightarrow> Time \<Rightarrow> User" where
  "login_user userRecord now =
     \<lparr>UID = ur_UID userRecord,
      Email = ur_Email userRecord,
      DisplayName = ur_DisplayName userRecord,
      PhotoURL = ur_PhotoURL userRecord,
      Provider = ''google.com'',
      EmailVerified = False,
      CreatedAt = 0,
      UpdatedAt = 0,
      LastLoginAt = now\<rparr>"

text \<open>The body of a login is \<^verbatim>\<open>{idToken}\<close>, bound with \<^verbatim>\<open>binding:"required"\<close>.\<close>

definition GoogleLogin :: "world \<Rightarrow> string option \<Rightarrow> world \<times> nat \<times> AuthResponse" where
  "GoogleLogin w body =
     (case (case body of None \<Rightarrow> Inl BindingFailed
                       | Some t \<Rightarrow> if t = [] then Inl BindingFailed else Inr t) of
        Inl err \<Rightarrow> (w, 400, auth_reply False ''Invalid request: idToken is required'' None [])
      | Inr idToken \<Rightarrow>
          (case VerifyIDToken w idToken of
             (w1, Inl err) \<Rightarrow> (w1, 401, auth_reply False ''Invalid or expired token'' None [])
           | (w1, Inr token) \<Rightarrow>
               (case GetUser w1 (tok_UID token) of
                  (w2, Inl err) \<Rightarrow>
                    (w2, 500, auth_reply False ''Failed to retrieve user information'' None [])
                | (w2, Inr userRecord) \<Rightarrow>
                    (case time_Now w2 of
                       (w3, now) \<Rightarrow>
                         let user = login_user userRecord now in
                         (case saveUserToFirestore w3 user of
                            (w4, user', Some err) \<Rightarrow>
                              (w4, 200, auth_reply True ''Logged in successfully (profile save pending)''
                                          (Some user') idToken)
                          | (w4, user', None) \<Rightarrow>
                              (w4, 200, auth_reply True ''Logged in successfully''
                                          (Some user') idToken))))))"

section \<open>Notions of the specification\<close>

text \<open>The Profile as the enrichment read of the resolver sees it: \<open>None\<close> when the
  document is missing, the read fails or the document does not decode.\<close>

definition profile_read :: "world \<Rightarrow> string \<Rightarrow> User option" where
  "profile_read w uid =
     (case Doc_Get w ''users'' uid of
        (w', Some d, None) \<Rightarrow> (case DataTo_User d of Inr u \<Rightarrow> Some u | Inl e \<Rightarrow> None)
      | _ \<Rightarrow> None)"

text \<open>An input that fails required-field validation, in the words of the specification:
  a missing first or last name, an invalid email format, an empty country or ticket
  type.\<close>

definition fails_validation :: "(string \<Rightarrow> bool) \<Rightarrow> RegistrationInput \<Rightarrow> bool" where
  "fails_validation is_email input \<longleftrightarrow>
     i_FirstName input = [] \<or> i_LastName input = [] \<or> \<not> is_email (i_Email input) \<or>
     i_Country input = [] \<or> i_TicketType input = []"

text \<open>The store holds no Registration document of a subject.\<close>

definition unregistered :: "world \<Rightarrow> string \<Rightarrow> bool" where
  "unregistered w uid \<longleftrightarrow>
     list_all (\<lambda>(ref, d). d ''userId'' \<noteq> Some (VString uid)) (collections w ''registrations'')"

text \<open>The user-editable fields of a Registration taken from an input, as the
  specification lists them, with the update time.\<close>

definition edited :: "Registration \<Rightarrow> RegistrationInput \<Rightarrow> Time \<Rightarrow> Registration" where
  "edited r input now =
     r\<lparr>r_FirstName := i_FirstName input,
       r_LastName := i_LastName input,
       r_Email := i_Email input,
       r_Phone := i_Phone input,
       r_Organization := i_Organization input,
       r_JobTitle := i_JobTitle input,
       r_Country := i_Country input,
       r_City := i_City input,
       r_DietaryReqs := i_DietaryReqs input,
       r_SpecialNeeds := i_SpecialNeeds input,
       r_TicketType := i_TicketType input,
       r_SessionsOfInt := i_SessionsOfInt input,
       r_UpdatedAt := now\<rparr>"

text \<open>The identity that a resolution without the enrichment step yields.\<close>

definition without_enrichment :: "User \<Rightarrow> User" where
  "without_enrichment u = u\<lparr>CreatedAt := 0, UpdatedAt := 0, LastLoginAt := 0, Provider := []\<rparr>"

text \<open>The names under which the user-editable fields are stored.\<close>

definition editable_fields :: "string list" where
  "editable_fields =
     [''firstName'', ''lastName'', ''email'', ''phone'', ''organization'', ''jobTitle'',
      ''country'', ''city'', ''dietaryRequirements'', ''specialNeeds'', ''ticketType'',
      ''sessionsOfInterest'']"

text \<open>What the optional entry point yields, told from what the required one yields on the
  same request: where the required path answers with an error, the request proceeds
  without identity; where it resolves an identity, the request proceeds with that
  identity less its enrichment, and the last remote call of the required path, the
  Profile read, is not made.\<close>

definition optional_of :: "world \<times> middleware_result \<Rightarrow> world \<times> middleware_result" where
  "optional_of r =
     (case r of
        (w', Abort status body) \<Rightarrow> (w', Next no_identity)
      | (w', Next c) \<Rightarrow>
          (w'\<lparr>calls := butlast (calls w')\<rparr>,
           Next (c\<lparr>ctx_user := (case ctx_user c of
                                   Some (UserPtr u) \<Rightarrow> Some (UserPtr (without_enrichment u))
                                 | v \<Rightarrow> v)\<rparr>)))"

text \<open>The value stored under a field of a document of a collection, if any.\<close>

definition stored_field :: "world \<Rightarrow> string \<Rightarrow> string \<Rightarrow> string \<Rightarrow> fsvalue option" where
  "stored_field w coll ref k =
     (case map_of (collections w coll) ref of None \<Rightarrow> None | Some d \<Rightarrow> d k)"

section \<open>Example inputs\<close>

text \<open>A provider that verifies the credential \<^verbatim>\<open>t1\<close> for the subject \<^verbatim>\<open>u1\<close>, an empty
  store, no outage, and the registration input of the specification's scenario.\<close>

definition ada_record :: UserRecord where
  "ada_record =
     \<lparr>ur_UID = ''u1'', ur_Email = ''ada@example.com'', ur_DisplayName = ''Ada'',
      ur_PhotoURL = [], ur_EmailVerified = True\<rparr>"

definition quiet_world :: world where
  "quiet_world =
     \<lparr>auth_ready = True,
      id_tokens = [''t1'' \<mapsto> \<lparr>tok_UID = ''u1''\<rparr>],
      accounts = [ada_record],
      collections = (\<lambda>coll. []),
      outage = (\<lambda>n. False),
      auto_id = (\<lambda>n. if n = 1 then ''r1'' else ''r2''),
      clock = (\<lambda>n. 100 + n),
      reads = 0,
      calls = []\<rparr>"

definition ada :: User where
  "ada = auth_user ada_record"

definition ada_context :: Context where
  "ada_context = set_identity ada \<lparr>tok_UID = ''u1''\<rparr>"

definition ada_input :: RegistrationInput where
  "ada_input =
     \<lparr>i_FirstName = ''Ada'', i_LastName = ''Lovelace'', i_Email = ''ada@example.com'',
      i_Phone = [], i_Organization = [], i_JobTitle = [], i_Country = ''UK'', i_City = [],
      i_DietaryReqs = [], i_SpecialNeeds = [], i_TicketType = ''standard'',
      i_SessionsOfInt = []\<rparr>"

text \<open>A stand-in for the validator's format check: an address holds an \<^verbatim>\<open>@\<close>.\<close>

definition has_at :: "string \<Rightarrow> bool" where
  "has_at s \<longleftrightarrow> CHR ''@'' \<in> set s"

text \<open>The same world with a Registration of the subject in the store, and with a Profile
  of the subject that also carries a field the program does not know.\<close>

definition ada_registration :: Registration where
  "ada_registration = new_registration ada ada_input 50"

definition registered_world :: world where
  "registered_world =
     quiet_world\<lparr>collections :=
       (\<lambda>coll. if coll = ''registrations'' then [(''r0'', encode_Registration ada_registration)]
               else [])\<rparr>"

definition ada_profile :: User where
  "ada_profile =
     \<lparr>UID = ''u1'', Email = ''ada@example.com'', DisplayName = ''Ada'', PhotoURL = [],
      Provider = ''google.com'', EmailVerified = True, CreatedAt = 7, UpdatedAt = 8,
      LastLoginAt = 9\<rparr>"

definition profiled_world :: world where
  "profiled_world =
     quiet_world\<lparr>collections :=
       (\<lambda>coll. if coll = ''users''
               then [(''u1'', (encode_User ada_profile)(''role'' \<mapsto> VString ''admin''))]
               else [])\<rparr>"

text \<open>The quiet world with one transient outage, on the third remote call, and the two
  worlds that two successive creates of the subject lead to from there.\<close>

definition flaky_world :: world where
  "flaky_world = quiet_world\<lparr>outage := (\<lambda>n. n = 2)\<rparr>"

definition after_first_create :: world where
  "after_first_create = fst (CreateRegistration has_at flaky_world ada_context (Some ada_input))"

definition after_second_create :: world where
  "after_second_create =
     fst (CreateRegistration has_at after_first_create ada_context (Some ada_input))"

text \<open>The world with the Profile, where the third remote call meets an outage.\<close>

definition unread_world :: world where
  "unread_world = profiled_world\<lparr>outage := (\<lambda>n. n = 2)\<rparr>"

section \<open>Lemmas\<close>

subsection \<open>\<open>strings_Split\<close>\<close>

lemma strings_Split_nonempty: "strings_Split s sep \<noteq> []"
  by (cases s) (simp_all split: list.split)

lemma strings_Split_decompose:
  "strings_Split s sep = p # ps \<Longrightarrow>
     sep \<notin> set p \<and> (if ps = [] then s = p else \<exists>b. s = p @ sep # b \<and> ps = strings_Split b sep)"
proof (induction s arbitrary: p ps)
  case Nil
  then show ?case by auto
next
  case (Cons c cs)
  show ?case
  proof (cases "c = sep")
    case True
    with Cons.prems have "p = []" "ps = strings_Split cs sep" by simp_all
    with True show ?thesis by (simp add: strings_Split_nonempty)
  next
    case False
    obtain q qs where q: "strings_Split cs sep = q # qs"
      using strings_Split_nonempty [of cs sep] by (cases "strings_Split cs sep") simp_all
    with False Cons.prems have p: "p = c # q" "ps = qs" by simp_all
    from Cons.IH [OF q] have "sep \<notin> set q"
      and "if qs = [] then cs = q else \<exists>b. cs = q @ sep # b \<and> qs = strings_Split b sep"
      by simp_all
    with False p show ?thesis by (cases "qs = []") auto
  qed
qed

lemma strings_Split_no_sep: "sep \<notin> set a \<Longrightarrow> strings_Split a sep = [a]"
  by (induction a) auto

lemma strings_Split_at_sep:
  "sep \<notin> set a \<Longrightarrow> strings_Split (a @ sep # b) sep = a # strings_Split b sep"
  by (induction a) auto

lemma bearer_split_shape:
  assumes "strings_Split h (CHR '' '') = [''Bearer'', tok]"
  shows "bearer_shape h"
proof -
  from strings_Split_decompose [OF assms]
  obtain b where h: "h = ''Bearer'' @ CHR '' '' # b" and b: "[tok] = strings_Split b (CHR '' '')"
    by auto
  from strings_Split_decompose [OF b [symmetric]]
  have "CHR '' '' \<notin> set tok" and "b = tok" by simp_all
  then show ?thesis unfolding bearer_shape_def by (simp add: h)
qed

lemma bearer_shape_split:
  assumes "bearer_shape h"
  shows "strings_Split h (CHR '' '') = [''Bearer'', drop 7 h]"
proof -
  from assms have t: "CHR '' '' \<notin> set (drop 7 h)" and p: "take 7 h = ''Bearer ''"
    by (simp_all add: bearer_shape_def)
  have "h = take 7 h @ drop 7 h" by simp
  with p have h: "h = ''Bearer'' @ CHR '' '' # drop 7 h" by simp
  have "strings_Split (''Bearer'' @ CHR '' '' # drop 7 h) (CHR '' '') =
          ''Bearer'' # strings_Split (drop 7 h) (CHR '' '')"
    by (rule strings_Split_at_sep) simp
  also have "strings_Split (drop 7 h) (CHR '' '') = [drop 7 h]"
    using t by (rule strings_Split_no_sep)
  finally have "strings_Split (''Bearer'' @ CHR '' '' # drop 7 h) (CHR '' '') = [''Bearer'', drop 7 h]" .
  then show ?thesis by (subst h)
qed

subsection \<open>Provider and store calls\<close>

lemma GetUser_UID:
  assumes "GetUser w uid = (w', Inr userRecord)"
  shows "ur_UID userRecord = uid"
proof -
  from assms have "find (\<lambda>r. ur_UID r = uid) (accounts w) = Some userRecord"
    by (auto simp: GetUser_def Auth_GetUser_def rpc_def split: if_splits option.splits)
  then show ?thesis by (auto simp: find_Some_iff)
qed

subsection \<open>Encoding and decoding documents\<close>

lemma encode_Registration_userId:
  "encode_Registration r ''userId'' = Some (VString (r_UserID r))"
  by (simp add: encode_Registration_def)

lemma updates_map_userId: "updates_map input now ''userId'' = None"
  by (simp add: updates_map_def)

lemma DataTo_encode_Registration:
  "DataTo_Registration (encode_Registration r) = Inr (r\<lparr>r_ID := []\<rparr>)"
  by (simp add: DataTo_Registration_def encode_Registration_def decodable_def
      Registration_schema_def get_string_def get_strings_def get_time_def)

lemma DataTo_encode_User: "DataTo_User (encode_User u) = Inr u"
  by (simp add: DataTo_User_def encode_User_def decodable_def
      User_schema_def get_string_def get_bool_def get_time_def)

lemma decodable_merge:
  assumes "decodable Registration_schema d"
  shows "decodable Registration_schema (d ++ updates_map input now)"
  using assms
  by (simp add: decodable_def Registration_schema_def updates_map_def map_add_def)

lemma DataTo_merge_Registration:
  assumes "DataTo_Registration d = Inr r"
  shows "DataTo_Registration (d ++ updates_map input now) = Inr (edited r input now)"
proof -
  from assms have dec: "decodable Registration_schema d"
    by (simp add: DataTo_Registration_def split: if_splits)
  from assms dec have r: "r = \<lparr>r_ID = [],
                r_UserID = get_string d ''userId'',
                r_FirstName = get_string d ''firstName'',
                r_LastName = get_string d ''lastName'',
                r_Email = get_string d ''email'',
                r_Phone = get_string d ''phone'',
                r_Organization = get_string d ''organization'',
                r_JobTitle = get_string d ''jobTitle'',
                r_Country = get_string d ''country'',
                r_City = get_string d ''city'',
                r_DietaryReqs = get_string d ''dietaryRequirements'',
                r_SpecialNeeds = get_string d ''specialNeeds'',
                r_TicketType = get_string d ''ticketType'',
                r_SessionsOfInt = get_strings d ''sessionsOfInterest'',
                r_PaymentStatus = get_string d ''paymentStatus'',
                r_RegistrationDate = get_time d ''registrationDate'',
                r_CreatedAt = get_time d ''createdAt'',
                r_UpdatedAt = get_time d ''updatedAt''\<rparr>"
    by (simp add: DataTo_Registration_def)
  have "DataTo_Registration (d ++ updates_map input now) =
          Inr \<lparr>r_ID = [],
                r_UserID = get_string d ''userId'',
                r_FirstName = i_FirstName input,
                r_LastName = i_LastName input,
                r_Email = i_Email input,
                r_Phone = i_Phone input,
                r_Organization = i_Organization input,
                r_JobTitle = i_JobTitle input,
                r_Country = i_Country input,
                r_City = i_City input,
                r_DietaryReqs = i_DietaryReqs input,
                r_SpecialNeeds = i_SpecialNeeds input,
                r_TicketType = i_TicketType input,
                r_SessionsOfInt = i_SessionsOfInt input,
                r_PaymentStatus = get_string d ''paymentStatus'',
                r_RegistrationDate = get_time d ''registrationDate'',
                r_CreatedAt = get_time d ''createdAt'',
                r_UpdatedAt = now\<rparr>"
    using decodable_merge [OF dec, of input now]
    by (simp add: DataTo_Registration_def get_string_def get_strings_def get_time_def
        updates_map_def map_add_def)
  then show ?thesis by (simp add: r edited_def)
qed

subsection \<open>\<open>getUserRegistration\<close>\<close>

lemma getUserRegistration_world:
  "fst (getUserRegistration w uid) =
     w\<lparr>calls := calls w @ [StoreQuery ''registrations'' ''userId'' (VString uid)]\<rparr>"
  by (simp add: getUserRegistration_def Query_Next_def rpc_def
      split: option.split sum.split prod.split)

lemma getUserRegistration_outage:
  "outage w (length (calls w)) \<Longrightarrow> snd (getUserRegistration w uid) = Inl Unavailable"
  by (simp add: getUserRegistration_def Query_Next_def rpc_def)

lemma find_unregistered:
  "unregistered w uid \<Longrightarrow>
     find (\<lambda>(ref, d). d ''userId'' = Some (VString uid)) (collections w ''registrations'') = None"
  by (auto simp: unregistered_def find_None_iff list_all_iff)

lemma getUserRegistration_unregistered:
  "unregistered w uid \<Longrightarrow> \<exists>err. snd (getUserRegistration w uid) = Inl err"
  by (simp add: getUserRegistration_def Query_Next_def rpc_def find_unregistered)

lemma getUserRegistration_found:
  assumes "\<not> outage w (length (calls w))"
    and "find (\<lambda>(ref, d). d ''userId'' = Some (VString uid)) (collections w ''registrations'') =
           Some (ref, d)"
  shows "snd (getUserRegistration w uid) =
           (case DataTo_Registration d of
              Inl err \<Rightarrow> Inl err
            | Inr registration \<Rightarrow> Inr (registration\<lparr>r_ID := ref\<rparr>))"
  using assms
  by (simp add: getUserRegistration_def Query_Next_def rpc_def split: sum.split)

lemma getUserRegistration_Inr:
  assumes "getUserRegistration w uid = (w1, Inr reg)"
  shows "\<not> outage w (length (calls w)) \<and>
         (\<exists>d. find (\<lambda>(ref, d). d ''userId'' = Some (VString uid)) (collections w ''registrations'') =
                 Some (r_ID reg, d) \<and>
               DataTo_Registration d = Inr (reg\<lparr>r_ID := []\<rparr>))"
proof -
  from assms have no: "\<not> outage w (length (calls w))"
    by (auto simp: getUserRegistration_def Query_Next_def rpc_def split: if_splits)
  with assms obtain ref d where
    f: "find (\<lambda>(ref, d). d ''userId'' = Some (VString uid)) (collections w ''registrations'') =
          Some (ref, d)"
    by (auto simp: getUserRegistration_def Query_Next_def rpc_def split: option.splits)
  from getUserRegistration_found [OF no f] assms
  obtain registration where d: "DataTo_Registration d = Inr registration"
    and reg: "reg = registration\<lparr>r_ID := ref\<rparr>"
    by (auto split: sum.splits)
  from d have "r_ID registration = []"
    by (auto simp: DataTo_Registration_def split: if_splits)
  with reg have "registration = reg\<lparr>r_ID := []\<rparr>" "r_ID reg = ref" by simp_all
  with no f d show ?thesis by auto
qed

subsection \<open>Searching a collection\<close>

lemma find_append_none:
  "find P xs = None \<Longrightarrow> find P (xs @ ys) = find P ys"
  by (induction xs) (auto split: if_splits)

lemma find_append_some:
  "find P xs = Some x \<Longrightarrow> find P (xs @ ys) = Some x"
  by (induction xs) (auto split: if_splits)

lemma find_map_same:
  assumes "\<And>x. x \<in> set xs \<Longrightarrow> P (f x) = P x"
  shows "find P (map f xs) = map_option f (find P xs)"
  using assms by (induction xs) auto

subsection \<open>Store writes\<close>

lemma Coll_Add_accepts:
  assumes "\<not> outage w (length (calls w))"
    and "auto_id w (length (calls w)) = ref"
    and "ref \<notin> set (map fst (collections w coll))"
  shows "Coll_Add w coll d =
           (put_collection (w\<lparr>calls := calls w @ [StoreAdd coll]\<rparr>) coll
              (collections w coll @ [(ref, d)]), Inr ref)"
  using assms by (simp add: Coll_Add_def rpc_def Let_def)

lemma Coll_Add_Inr:
  assumes "Coll_Add w coll d = (w', Inr ref)"
  shows "collections w' coll = collections w coll @ [(ref, d)] \<and>
         calls w' = calls w @ [StoreAdd coll]"
  using assms
  by (auto simp: Coll_Add_def rpc_def Let_def put_collection_def split: if_splits)

lemma Doc_SetMerge_accepts:
  assumes "\<not> outage w (length (calls w))"
  shows "Doc_SetMerge w coll ref updates =
           (put_collection (w\<lparr>calls := calls w @ [StoreSetMerge coll ref]\<rparr>) coll
              (write_doc ref (\<lambda>old. case old of None \<Rightarrow> updates | Some d \<Rightarrow> d ++ updates)
                 (collections w coll)), None)"
  using assms by (simp add: Doc_SetMerge_def rpc_def)

lemma Doc_SetMerge_None:
  assumes "Doc_SetMerge w coll ref updates = (w', None)"
  shows "\<not> outage w (length (calls w))"
  using assms by (auto simp: Doc_SetMerge_def rpc_def split: if_splits)

lemma getUserRegistration_ada:
  assumes "collections w ''registrations'' = [(''r0'', encode_Registration ada_registration)]"
    and "\<not> outage w (length (calls w))"
  shows "snd (getUserRegistration w (UID ada)) = Inr (ada_registration\<lparr>r_ID := ''r0''\<rparr>)"
proof -
  have "r_UserID ada_registration = UID ada"
    by (simp add: ada_registration_def new_registration_def)
  then have "find (\<lambda>(ref, d). d ''userId'' = Some (VString (UID ada))) (collections w ''registrations'') =
          Some (''r0'', encode_Registration ada_registration)"
    by (simp add: assms(1) encode_Registration_userId)
  from getUserRegistration_found [OF assms(2) this] show ?thesis
    by (simp add: DataTo_encode_Registration)
qed

subsection \<open>The merge-write of an update\<close>

lemma dom_updates_map:
  "dom (updates_map input now) = set (''updatedAt'' # editable_fields)"
  by (auto simp: updates_map_def editable_fields_def)

lemma merge_keeps_userId:
  "(d ++ updates_map input now) ''userId'' = d ''userId''"
  by (simp add: map_add_def updates_map_userId)

lemma write_doc_present:
  assumes "ref \<in> set (map fst ds)"
  shows "write_doc ref f ds = map (\<lambda>(r, d). if r = ref then (r, f (Some d)) else (r, d)) ds"
  using assms by (simp add: write_doc_def)

lemma read_after_merge:
  assumes "find (\<lambda>(ref, d). d ''userId'' = Some (VString uid)) (collections w ''registrations'') =
             Some (ref0, d0)"
    and "DataTo_Registration d0 = Inr r0"
    and "collections w' ''registrations'' =
           map (\<lambda>(r, d). if r = ref0 then (r, d ++ updates_map input now) else (r, d))
             (collections w ''registrations'')"
    and "\<not> outage w' (length (calls w'))"
  shows "snd (getUserRegistration w' uid) = Inr ((edited r0 input now)\<lparr>r_ID := ref0\<rparr>)"
proof -
  let ?P = "\<lambda>(ref, d). d ''userId'' = Some (VString uid)"
  let ?g = "\<lambda>(r, d). if r = ref0 then (r, d ++ updates_map input now) else (r, d)"
  have "find ?P (map ?g (collections w ''registrations'')) =
          map_option ?g (find ?P (collections w ''registrations''))"
    by (rule find_map_same) (auto simp: merge_keeps_userId split: if_splits)
  with assms(1,3) have "find ?P (collections w' ''registrations'') =
                          Some (ref0, d0 ++ updates_map input now)"
    by simp
  from getUserRegistration_found [OF assms(4) this] show ?thesis
    by (simp add: DataTo_merge_Registration [OF assms(2)])
qed

lemma edited_ID: "(edited (r\<lparr>r_ID := []\<rparr>) input now)\<lparr>r_ID := r_ID r\<rparr> = edited r input now"
  by (simp add: edited_def)

subsection \<open>The two middlewares\<close>

lemma Doc_Get_world:
  "fst (Doc_Get w coll ref) = w\<lparr>calls := calls w @ [StoreGet coll ref]\<rparr>"
  by (simp add: Doc_Get_def rpc_def split: option.split)

lemma without_enrichment_merge:
  "without_enrichment (merge_firestore_user (auth_user userRecord) doc err) = auth_user userRecord"
  by (simp add: without_enrichment_def merge_firestore_user_def auth_user_def
      split: option.split sum.split)

lemma optional_of_resolved:
  assumes "Doc_Get w2 ''users'' uid = (w3, doc, err)"
  shows "optional_of (w3, Next (set_identity (merge_firestore_user (auth_user userRecord) doc err) token)) =
           (w2, Next (set_identity (auth_user userRecord) token))"
proof -
  from assms have "w3 = fst (Doc_Get w2 ''users'' uid)" by simp
  then have "w3\<lparr>calls := butlast (calls w3)\<rparr> = w2"
    by (simp add: Doc_Get_world)
  then show ?thesis
    by (simp add: optional_of_def set_identity_def without_enrichment_merge)
qed

subsection \<open>Replacing a document\<close>

lemma map_of_write_doc_same:
  "map_of (write_doc ref f ds) ref = Some (f (map_of ds ref))"
proof (cases "ref \<in> set (map fst ds)")
  case True
  then have "map_of (map (\<lambda>(r, d). if r = ref then (r, f (Some d)) else (r, d)) ds) ref =
               Some (f (map_of ds ref))"
    by (induction ds) auto
  with True show ?thesis by (simp add: write_doc_def)
next
  case False
  then have "map_of ds ref = None"
    by (simp add: map_of_eq_None_iff)
  with False show ?thesis by (simp add: write_doc_def map_add_def)
qed

lemma map_of_write_doc_other:
  assumes "ref' \<noteq> ref"
  shows "map_of (write_doc ref f ds) ref' = map_of ds ref'"
proof (cases "ref \<in> set (map fst ds)")
  case True
  have "map_of (map (\<lambda>(r, d). if r = ref then (r, f (Some d)) else (r, d)) ds) ref' =
          map_of ds ref'"
    using assms by (induction ds) auto
  with True show ?thesis by (simp add: write_doc_def)
next
  case False
  with assms show ?thesis by (auto simp: write_doc_def map_add_def split: option.split)
qed

lemma Doc_Set_accepts:
  assumes "\<not> outage w (length (calls w))"
  shows "Doc_Set w coll ref d =
           (put_collection (w\<lparr>calls := calls w @ [StoreSet coll ref]\<rparr>) coll
              (write_doc ref (\<lambda>_. d) (collections w coll)), None)"
  using assms by (simp add: Doc_Set_def rpc_def)

lemma Doc_Get_missing:
  assumes "map_of (collections w coll) ref = None"
  shows "\<exists>err. snd (Doc_Get w coll ref) = (None, Some err)"
  using assms by (simp add: Doc_Get_def rpc_def)

lemma profile_read_Some:
  assumes "profile_read w uid = Some u"
  shows "\<exists>d. snd (Doc_Get w ''users'' uid) = (Some d, None) \<and> DataTo_User d = Inr u"
  using assms
  by (auto simp: profile_read_def split: prod.splits option.splits sum.splits)

subsection \<open>\<open>saveUserToFirestore\<close>\<close>

lemma save_error:
  assumes "\<not> outage w (Suc (length (calls w)))"
  shows "snd (snd (saveUserToFirestore w user)) = None"
  using assms
  by (simp add: saveUserToFirestore_def Doc_Get_def Doc_Set_def rpc_def time_Now_def Let_def
      split: option.split sum.split)

lemma save_collection:
  assumes "\<not> outage w (Suc (length (calls w)))"
  shows "collections (fst (saveUserToFirestore w user)) ''users'' =
           write_doc (UID user) (\<lambda>_. encode_User (fst (snd (saveUserToFirestore w user))))
             (collections w ''users'')"
  using assms
  by (simp add: saveUserToFirestore_def Doc_Get_def Doc_Set_def rpc_def time_Now_def Let_def
      put_collection_def split: option.split sum.split)

lemma save_other_fields:
  "(fst (snd (saveUserToFirestore w user)))\<lparr>CreatedAt := 0, UpdatedAt := 0\<rparr> =
     user\<lparr>CreatedAt := 0, UpdatedAt := 0\<rparr>"
  by (simp add: saveUserToFirestore_def Doc_Get_def Doc_Set_def rpc_def time_Now_def Let_def
      split: option.split sum.split)

lemma save_new_profile:
  assumes "map_of (collections w ''users'') (UID user) = None"
  shows "CreatedAt (fst (snd (saveUserToFirestore w user))) = clock w (reads w) \<and>
         UpdatedAt (fst (snd (saveUserToFirestore w user))) = clock w (Suc (reads w))"
  using assms
  by (simp add: saveUserToFirestore_def Doc_Get_def Doc_Set_def rpc_def time_Now_def Let_def
      split: option.split sum.split)

lemma save_existing_profile:
  assumes "profile_read w (UID user) = Some existingUser"
  shows "CreatedAt (fst (snd (saveUserToFirestore w user))) = CreatedAt existingUser \<and>
         UpdatedAt (fst (snd (saveUserToFirestore w user))) = clock w (reads w)"
proof -
  from profile_read_Some [OF assms] obtain d where
    g: "snd (Doc_Get w ''users'' (UID user)) = (Some d, None)" and d: "DataTo_User d = Inr existingUser"
    by blast
  obtain w1 where g': "Doc_Get w ''users'' (UID user) = (w1, Some d, None)"
    using g by (cases "Doc_Get w ''users'' (UID user)") auto
  then have w1: "w1 = w\<lparr>calls := calls w @ [StoreGet ''users'' (UID user)]\<rparr>"
    using Doc_Get_world [of w "''users''" "UID user"] by simp
  show ?thesis
    by (simp add: saveUserToFirestore_def g' d time_Now_def w1 Let_def split: prod.split)
qed

lemma dom_encode_User: "dom (encode_User u) = set (map fst User_schema)"
  by (auto simp: encode_User_def User_schema_def)

lemma encode_User_fields:
  "encode_User u ''emailVerified'' = Some (VBool (EmailVerified u))"
  "encode_User u ''role'' = None"
  by (simp_all add: encode_User_def)

lemma save_EmailVerified:
  "EmailVerified (fst (snd (saveUserToFirestore w user))) = EmailVerified user"
  using arg_cong [OF save_other_fields [of w user], of EmailVerified] by simp

lemma stored_field_after_save:
  assumes "\<not> outage w (Suc (length (calls w)))"
  shows "stored_field (fst (saveUserToFirestore w user)) ''users'' (UID user) k =
           encode_User (fst (snd (saveUserToFirestore w user))) k"
  by (simp add: stored_field_def save_collection [OF assms] map_of_write_doc_same)

subsection \<open>\<open>CreateRegistration\<close>\<close>

lemma CreateRegistration_inserts:
  assumes "ctx_user c = Some (UserPtr user)"
    and "binding_ok is_email input"
    and "snd (getUserRegistration w (UID user)) = Inl err"
    and "\<not> outage w (Suc (length (calls w)))"
    and "auto_id w (Suc (length (calls w))) = docID"
    and "docID \<notin> set (map fst (collections w ''registrations''))"
  shows "CreateRegistration is_email w c (Some input) =
           (put_collection
              (w\<lparr>calls := calls w @ [StoreQuery ''registrations'' ''userId'' (VString (UID user)),
                                     StoreAdd ''registrations''],
                  reads := Suc (reads w)\<rparr>)
              ''registrations''
              (collections w ''registrations'' @
                 [(docID, encode_Registration (new_registration user input (clock w (reads w))))]),
            201,
            reply True (Msg ''Registration created successfully'')
              (Some ((new_registration user input (clock w (reads w)))\<lparr>r_ID := docID\<rparr>)))"
proof -
  define w1 where
    "w1 = w\<lparr>calls := calls w @ [StoreQuery ''registrations'' ''userId'' (VString (UID user))]\<rparr>"
  define w2 where "w2 = w1\<lparr>reads := Suc (reads w)\<rparr>"
  define doc where "doc = encode_Registration (new_registration user input (clock w (reads w)))"
  have g: "getUserRegistration w (UID user) = (w1, Inl err)"
    using assms(3) getUserRegistration_world [of w "UID user"]
    by (simp add: prod_eq_iff w1_def)
  have t: "time_Now w1 = (w2, clock w (reads w))"
    by (simp add: time_Now_def w2_def w1_def)
  have add: "Coll_Add w2 ''registrations'' doc =
               (put_collection (w2\<lparr>calls := calls w2 @ [StoreAdd ''registrations'']\<rparr>) ''registrations''
                  (collections w2 ''registrations'' @ [(docID, doc)]), Inr docID)"
    by (rule Coll_Add_accepts) (use assms(4,5,6) in \<open>simp_all add: w2_def w1_def\<close>)
  show ?thesis
    using assms(1,2) g t add
    by (simp add: CreateRegistration_def ShouldBindJSON_def Let_def doc_def w2_def w1_def
        put_collection_def)
qed

lemma CreateRegistration_conflicts:
  assumes "ctx_user c = Some (UserPtr user)"
    and "binding_ok is_email input"
    and "snd (getUserRegistration w (UID user)) = Inr existingReg"
  shows "CreateRegistration is_email w c (Some input) =
           (w\<lparr>calls := calls w @ [StoreQuery ''registrations'' ''userId'' (VString (UID user))]\<rparr>,
            409,
            reply False (Msg ''User already has a registration. Please update instead.'')
              (Some existingReg))"
proof -
  have "getUserRegistration w (UID user) =
          (w\<lparr>calls := calls w @ [StoreQuery ''registrations'' ''userId'' (VString (UID user))]\<rparr>,
           Inr existingReg)"
    using assms(3) getUserRegistration_world [of w "UID user"] by (simp add: prod_eq_iff)
  with assms(1,2) show ?thesis
    by (simp add: CreateRegistration_def ShouldBindJSON_def)
qed

text \<open>Two successive creates of one subject, when the duplicate check of the second is
  answered by the store: the second is a conflict that carries the record of the first,
  and writes nothing.\<close>

lemma create_then_create_conflicts:
  assumes "ctx_user c = Some (UserPtr user)"
    and "binding_ok is_email input"
    and "binding_ok is_email input'"
    and "unregistered w (UID user)"
    and "\<not> outage w (Suc (length (calls w)))"
    and "auto_id w (Suc (length (calls w))) = docID"
    and "docID \<notin> set (map fst (collections w ''registrations''))"
    and "\<not> outage w (Suc (Suc (length (calls w))))"
  shows "\<exists>w1 w2 reg.
           CreateRegistration is_email w c (Some input) =
             (w1, 201, reply True (Msg ''Registration created successfully'') (Some reg)) \<and>
           CreateRegistration is_email w1 c (Some input') =
             (w2, 409, reply False (Msg ''User already has a registration. Please update instead.'')
                         (Some reg)) \<and>
           collections w2 = collections w1"
proof -
  define new where "new = new_registration user input (clock w (reads w))"
  define w1 where "w1 = put_collection
              (w\<lparr>calls := calls w @ [StoreQuery ''registrations'' ''userId'' (VString (UID user)),
                                     StoreAdd ''registrations''],
                  reads := Suc (reads w)\<rparr>)
              ''registrations''
              (collections w ''registrations'' @ [(docID, encode_Registration new)])"
  obtain err where e: "snd (getUserRegistration w (UID user)) = Inl err"
    using getUserRegistration_unregistered [OF assms(4)] by blast
  have first: "CreateRegistration is_email w c (Some input) =
                 (w1, 201, reply True (Msg ''Registration created successfully'')
                             (Some (new\<lparr>r_ID := docID\<rparr>)))"
    unfolding w1_def new_def
    by (rule CreateRegistration_inserts [OF assms(1,2) e assms(5,6,7)])
  have own: "encode_Registration new ''userId'' = Some (VString (UID user))"
    by (simp add: encode_Registration_userId new_def new_registration_def)
  have f: "find (\<lambda>(ref, d). d ''userId'' = Some (VString (UID user))) (collections w1 ''registrations'') =
             Some (docID, encode_Registration new)"
    by (simp add: w1_def put_collection_def find_append_none [OF find_unregistered [OF assms(4)]] own)
  have n: "\<not> outage w1 (length (calls w1))"
    using assms(8) by (simp add: w1_def put_collection_def)
  have "snd (getUserRegistration w1 (UID user)) = Inr (new\<lparr>r_ID := docID\<rparr>)"
    using getUserRegistration_found [OF n f] by (simp add: DataTo_encode_Registration)
  from CreateRegistration_conflicts [OF assms(1,3) this] first show ?thesis
    by auto
qed

subsection \<open>\<open>GoogleLogin\<close>\<close>

lemma save_unread_profile:
  assumes "outage w (length (calls w))"
  shows "CreatedAt (fst (snd (saveUserToFirestore w user))) = clock w (reads w)"
  using assms
  by (simp add: saveUserToFirestore_def Doc_Get_def Doc_Set_def rpc_def time_Now_def Let_def
      split: option.split sum.split)

lemma encode_User_createdAt:
  "encode_User u ''createdAt'' = Some (VTime (CreatedAt u))"
  by (simp add: encode_User_def)

lemma GoogleLogin_saves:
  assumes "idToken \<noteq> []"
    and "VerifyIDToken w idToken = (w1, Inr token)"
    and "GetUser w1 (tok_UID token) = (w2, Inr userRecord)"
    and "\<not> outage w2 (Suc (length (calls w2)))"
  shows "GoogleLogin w (Some idToken) =
           (fst (saveUserToFirestore (w2\<lparr>reads := Suc (reads w2)\<rparr>)
                   (login_user userRecord (clock w2 (reads w2)))),
            200,
            auth_reply True ''Logged in successfully''
              (Some (fst (snd (saveUserToFirestore (w2\<lparr>reads := Suc (reads w2)\<rparr>)
                                 (login_user userRecord (clock w2 (reads w2)))))))
              idToken)"
proof -
  define w3 where "w3 = w2\<lparr>reads := Suc (reads w2)\<rparr>"
  define user where "user = login_user userRecord (clock w2 (reads w2))"
  have n: "\<not> outage w3 (Suc (length (calls w3)))"
    using assms(4) by (simp add: w3_def)
  obtain w4 saved where s: "saveUserToFirestore w3 user = (w4, saved, None)"
    using save_error [OF n, of user] by (cases "saveUserToFirestore w3 user") auto
  have t: "time_Now w2 = (w3, clock w2 (reads w2))"
    by (simp add: time_Now_def w3_def)
  show ?thesis
    using assms(1,2,3) t s
    by (simp add: GoogleLogin_def Let_def user_def [symmetric] w3_def [symmetric])
qed

subsection \<open>Fields of stored documents\<close>

lemma stored_field_appended:
  assumes "ref \<notin> set (map fst (collections w coll))"
    and "collections w' coll = collections w coll @ [(ref, d)]"
  shows "stored_field w' coll ref k = d k"
proof -
  from assms(1) have "map_of (collections w coll) ref = None"
    by (simp add: map_of_eq_None_iff)
  then show ?thesis
    by (simp add: stored_field_def assms(2) map_add_def)
qed

lemma stored_field_merged:
  assumes "ref \<in> set (map fst (collections w coll))"
    and "collections w' coll =
           write_doc ref (\<lambda>old. case old of None \<Rightarrow> u | Some d \<Rightarrow> d ++ u) (collections w coll)"
  shows "stored_field w' coll ref k =
           (case u k of None \<Rightarrow> stored_field w coll ref k | Some v \<Rightarrow> Some v)"
proof -
  from assms(1) obtain d where d: "map_of (collections w coll) ref = Some d"
    by (cases "map_of (collections w coll) ref") (auto simp: map_of_eq_None_iff)
  then show ?thesis
    by (auto simp: stored_field_def assms(2) map_of_write_doc_same map_add_def
        split: option.split)
qed

lemma updates_map_values:
  "updates_map input now ''firstName'' = Some (VString (i_FirstName input))"
  "updates_map input now ''lastName'' = Some (VString (i_LastName input))"
  "updates_map input now ''email'' = Some (VString (i_Email input))"
  "updates_map input now ''phone'' = Some (VString (i_Phone input))"
  "updates_map input now ''organization'' = Some (VString (i_Organization input))"
  "updates_map input now ''jobTitle'' = Some (VString (i_JobTitle input))"
  "updates_map input now ''country'' = Some (VString (i_Country input))"
  "updates_map input now ''city'' = Some (VString (i_City input))"
  "updates_map input now ''dietaryRequirements'' = Some (VString (i_DietaryReqs input))"
  "updates_map input now ''specialNeeds'' = Some (VString (i_SpecialNeeds input))"
  "updates_map input now ''ticketType'' = Some (VString (i_TicketType input))"
  "updates_map input now ''sessionsOfInterest'' = Some (VStrings (i_SessionsOfInt input))"
  "updates_map input now ''updatedAt'' = Some (VTime now)"
  by (simp_all add: updates_map_def)

lemma updates_map_untouched:
  assumes "k \<notin> set (''updatedAt'' # editable_fields)"
  shows "updates_map input now k = None"
  using assms dom_updates_map [of input now] by blast

section \<open>Claims\<close>

text \<open>
  C1. Two successive creates of one subject, with no other request in between, on a store
  that was empty, where the duplicate check of the second create (the third remote call)
  meets a transient outage: the error of the check is discarded, both creates are answered
  with 201, and the store ends with two Registration documents of the subject. The
  second create is not a 409 conflict, and a second document is written.
\<close>

theorem create_twice_writes_duplicate:
  "unregistered flaky_world ''u1'' \<and>
   fst (snd (CreateRegistration has_at flaky_world ada_context (Some ada_input))) = 201 \<and>
   fst (snd (CreateRegistration has_at after_first_create ada_context (Some ada_input))) = 201 \<and>
   map fst (collections after_second_create ''registrations'') = [''r1'', ''r2''] \<and>
   stored_field after_second_create ''registrations'' ''r1'' ''userId'' = Some (VString ''u1'') \<and>
   stored_field after_second_create ''registrations'' ''r2'' ''userId'' = Some (VString ''u1'')"
proof -
  define q where "q = StoreQuery ''registrations'' ''userId'' (VString ''u1'')"
  define doc1 where "doc1 = encode_Registration (new_registration ada ada_input 100)"
  define doc2 where "doc2 = encode_Registration (new_registration ada ada_input 101)"
  define w1 where
    "w1 = put_collection (flaky_world\<lparr>calls := [q, StoreAdd ''registrations''], reads := Suc 0\<rparr>)
            ''registrations'' [(''r1'', doc1)]"
  define w2 where
    "w2 = put_collection
            (w1\<lparr>calls := [q, StoreAdd ''registrations'', q, StoreAdd ''registrations''],
                reads := Suc (Suc 0)\<rparr>)
            ''registrations'' [(''r1'', doc1), (''r2'', doc2)]"
  have a: "ctx_user ada_context = Some (UserPtr ada)"
    by (simp add: ada_context_def set_identity_def)
  have b: "binding_ok has_at ada_input"
    by (simp add: binding_ok_def ada_input_def has_at_def)
  have uid: "UID ada = ''u1''"
    by (simp add: ada_def auth_user_def ada_record_def)
  have un: "unregistered flaky_world (UID ada)"
    by (simp add: unregistered_def flaky_world_def quiet_world_def)
  obtain err where e1: "snd (getUserRegistration flaky_world (UID ada)) = Inl err"
    using getUserRegistration_unregistered [OF un] by blast
  have first: "CreateRegistration has_at flaky_world ada_context (Some ada_input) =
                 (w1, 201, reply True (Msg ''Registration created successfully'')
                             (Some ((new_registration ada ada_input 100)\<lparr>r_ID := ''r1''\<rparr>)))"
    using CreateRegistration_inserts [OF a b e1, of "''r1''"]
    by (simp add: flaky_world_def quiet_world_def w1_def doc1_def q_def uid)
  have "outage w1 (length (calls w1))"
    by (simp add: w1_def put_collection_def flaky_world_def)
  then have e2: "snd (getUserRegistration w1 (UID ada)) = Inl Unavailable"
    by (rule getUserRegistration_outage)
  have second: "CreateRegistration has_at w1 ada_context (Some ada_input) =
                 (w2, 201, reply True (Msg ''Registration created successfully'')
                             (Some ((new_registration ada ada_input 101)\<lparr>r_ID := ''r2''\<rparr>)))"
    using CreateRegistration_inserts [OF a b e2, of "''r2''"]
    by (simp add: w1_def put_collection_def flaky_world_def quiet_world_def w2_def doc1_def
        doc2_def q_def uid)
  have w1: "after_first_create = w1"
    by (simp add: after_first_create_def first)
  have w2: "after_second_create = w2"
    by (simp add: after_second_create_def w1 second)
  have ids: "doc1 ''userId'' = Some (VString ''u1'')" "doc2 ''userId'' = Some (VString ''u1'')"
    by (simp_all add: doc1_def doc2_def encode_Registration_userId new_registration_def uid)
  show ?thesis
    using un by (simp add: first w1 second w2 uid)
      (simp add: w2_def put_collection_def stored_field_def ids)
qed

text \<open>
  C2. On a protected route (\<open>RequireAuth\<close>, \<^verbatim>\<open>src/unnamed/part_000\<close> lines 314 to 349), a
  request whose Authorization header is absent or is not of the shape \<^verbatim>\<open>Bearer <token>\<close>
  (the word, one space, a token without a space) is answered with 401, and the world is
  left as it was: in particular the log of provider and store calls is unchanged, so no
  remote call was made.
\<close>

theorem RequireAuth_rejects_malformed:
  assumes "\<not> bearer_shape (GetHeader header)"
  shows "fst (RequireAuth w header) = w \<and>
         calls (fst (RequireAuth w header)) = calls w \<and>
         (\<exists>m. snd (RequireAuth w header) = Abort 401 \<lparr>success = False, message = m\<rparr>)"
proof (cases "\<exists>idToken. strings_Split (GetHeader header) (CHR '' '') = [''Bearer'', idToken]")
  case True
  with assms bearer_split_shape show ?thesis by blast
next
  case False
  then show ?thesis
    unfolding RequireAuth_def Let_def unauthorized_def
    by (simp split: list.split)
qed

theorem RequireAuth_rejects_malformed_witness:
  "\<not> bearer_shape (GetHeader (Some ''Basic dDE='')) \<and>
   fst (RequireAuth quiet_world (Some ''Basic dDE='')) = quiet_world \<and>
   calls (fst (RequireAuth quiet_world (Some ''Basic dDE=''))) = calls quiet_world \<and>
   (\<exists>m. snd (RequireAuth quiet_world (Some ''Basic dDE='')) =
          Abort 401 \<lparr>success = False, message = m\<rparr>)"
proof -
  have h: "\<not> bearer_shape (GetHeader (Some ''Basic dDE=''))"
    by (simp add: bearer_shape_def GetHeader_def)
  from h RequireAuth_rejects_malformed [OF h, of quiet_world] show ?thesis by blast
qed

text \<open>
  C3. When the header has the bearer shape, the provider verifies the credential and the
  user record of the verified subject can be fetched, \<open>RequireAuth\<close>
  (\<^verbatim>\<open>src/unnamed/part_000\<close> lines 337 to 389) calls \<^verbatim>\<open>c.Next()\<close> with an identity whose
  subject identifier is the subject of the verified token and whose email, name, photo and
  verified flag are those of the user record. This holds for every state of the
  \<^verbatim>\<open>users\<close> collection and every outcome of the enrichment read; when the Profile is
  missing, unreadable or does not decode, the enrichment fields keep their zero values.
\<close>

theorem RequireAuth_resolves_identity:
  assumes "bearer_shape (GetHeader header)"
    and "VerifyIDToken w (drop 7 (GetHeader header)) = (w1, Inr token)"
    and "GetUser w1 (tok_UID token) = (w2, Inr userRecord)"
  shows "\<exists>w3 user.
           RequireAuth w header =
             (w3, Next \<lparr>ctx_user = Some (UserPtr user), ctx_uid = Some (tok_UID token),
                        ctx_token = Some token\<rparr>) \<and>
           UID user = tok_UID token \<and>
           Email user = ur_Email userRecord \<and>
           DisplayName user = ur_DisplayName userRecord \<and>
           PhotoURL user = ur_PhotoURL userRecord \<and>
           EmailVerified user = ur_EmailVerified userRecord \<and>
           (profile_read w2 (tok_UID token) = None \<longrightarrow>
              CreatedAt user = 0 \<and> UpdatedAt user = 0 \<and> LastLoginAt user = 0 \<and> Provider user = [])"
proof -
  obtain w3 doc err where g: "Doc_Get w2 ''users'' (tok_UID token) = (w3, doc, err)"
    by (cases "Doc_Get w2 ''users'' (tok_UID token)") auto
  let ?user = "merge_firestore_user (auth_user userRecord) doc err"
  have nonempty: "GetHeader header \<noteq> []"
    using assms(1) by (auto simp: bearer_shape_def)
  have r: "RequireAuth w header = (w3, Next (set_identity ?user token))"
    unfolding RequireAuth_def Let_def
    by (simp add: nonempty bearer_shape_split [OF assms(1)] assms(2,3) g)
  have base: "UID ?user = ur_UID userRecord" "Email ?user = ur_Email userRecord"
    "DisplayName ?user = ur_DisplayName userRecord" "PhotoURL ?user = ur_PhotoURL userRecord"
    "EmailVerified ?user = ur_EmailVerified userRecord"
    by (simp_all add: merge_firestore_user_def auth_user_def split: option.split sum.split)
  have zero: "profile_read w2 (tok_UID token) = None \<Longrightarrow> ?user = auth_user userRecord"
    by (simp add: profile_read_def g merge_firestore_user_def split: option.splits sum.splits)
  show ?thesis
    using r base zero GetUser_UID [OF assms(3)]
    by (auto simp: set_identity_def auth_user_def)
qed

theorem RequireAuth_resolves_identity_witness:
  "bearer_shape (GetHeader (Some ''Bearer t1'')) \<and>
   VerifyIDToken quiet_world (drop 7 (GetHeader (Some ''Bearer t1''))) =
     (quiet_world\<lparr>calls := [AuthVerify ''t1'']\<rparr>, Inr \<lparr>tok_UID = ''u1''\<rparr>) \<and>
   GetUser (quiet_world\<lparr>calls := [AuthVerify ''t1'']\<rparr>) ''u1'' =
     (quiet_world\<lparr>calls := [AuthVerify ''t1'', AuthGetUser ''u1'']\<rparr>, Inr ada_record) \<and>
   (\<exists>w3 user.
      RequireAuth quiet_world (Some ''Bearer t1'') =
        (w3, Next \<lparr>ctx_user = Some (UserPtr user), ctx_uid = Some ''u1'',
                   ctx_token = Some \<lparr>tok_UID = ''u1''\<rparr>\<rparr>) \<and>
      UID user = ''u1'' \<and> CreatedAt user = 0 \<and> Provider user = [])"
proof -
  have a: "bearer_shape (GetHeader (Some ''Bearer t1''))"
    by (simp add: bearer_shape_def GetHeader_def)
  have b: "VerifyIDToken quiet_world (drop 7 (GetHeader (Some ''Bearer t1''))) =
     (quiet_world\<lparr>calls := [AuthVerify ''t1'']\<rparr>, Inr \<lparr>tok_UID = ''u1''\<rparr>)"
    by (simp add: GetHeader_def VerifyIDToken_def Auth_VerifyIDToken_def rpc_def quiet_world_def)
  have c: "GetUser (quiet_world\<lparr>calls := [AuthVerify ''t1'']\<rparr>) (tok_UID \<lparr>tok_UID = ''u1''\<rparr>) =
     (quiet_world\<lparr>calls := [AuthVerify ''t1'', AuthGetUser ''u1'']\<rparr>, Inr ada_record)"
    by (simp add: GetUser_def Auth_GetUser_def rpc_def quiet_world_def ada_record_def)
  have d: "profile_read (quiet_world\<lparr>calls := [AuthVerify ''t1'', AuthGetUser ''u1'']\<rparr>)
             (tok_UID \<lparr>tok_UID = ''u1''\<rparr>) = None"
    by (simp add: profile_read_def Doc_Get_def rpc_def quiet_world_def)
  from RequireAuth_resolves_identity [OF a b c] d a b c show ?thesis
    by simp blast
qed

text \<open>
  C4. An authenticated create with a valid input, for a subject that has no Registration
  document in the store, whose insert the store accepts (the insert is the second remote
  call of the request; it meets no outage and the store generates for it an unused,
  non-empty document id) is answered with 201 (\<^verbatim>\<open>src/unnamed/part_001\<close> lines 80 to 118).
  The response is a success and carries a Registration: it has
  \<^verbatim>\<open>paymentStatus = "pending"\<close>, its three timestamps are the one reading of the clock taken
  by the request, its \<^verbatim>\<open>userId\<close> is the subject, its contact fields are those of the input
  and its id is the id the store assigned. One document is appended to the collection,
  under that id; it stores \<^verbatim>\<open>pending\<close> as payment status, the clock reading under the
  three timestamps and the subject as \<^verbatim>\<open>userId\<close>, and a later read by subject that meets
  no outage returns the Registration of the response.
\<close>

theorem create_registration_created:
  assumes "ctx_user c = Some (UserPtr user)"
    and "binding_ok is_email input"
    and "unregistered w (UID user)"
    and "\<not> outage w (Suc (length (calls w)))"
    and "auto_id w (Suc (length (calls w))) = docID"
    and "docID \<notin> set (map fst (collections w ''registrations''))"
    and "docID \<noteq> []"
  shows "\<exists>w' reg.
           CreateRegistration is_email w c (Some input) =
             (w', 201, \<lparr>rr_Success = True,
                        rr_Message = Msg ''Registration created successfully'',
                        rr_Registration = Some reg\<rparr>) \<and>
           fst (snd (CreateRegistration is_email w c (Some input))) = 201 \<and>
           rr_Registration (snd (snd (CreateRegistration is_email w c (Some input)))) = Some reg \<and>
           reg = (new_registration user input (clock w (reads w)))\<lparr>r_ID := docID\<rparr> \<and>
           r_PaymentStatus reg = ''pending'' \<and>
           r_RegistrationDate reg = clock w (reads w) \<and>
           r_CreatedAt reg = clock w (reads w) \<and>
           r_UpdatedAt reg = clock w (reads w) \<and>
           r_UserID reg = UID user \<and>
           r_ID reg = docID \<and> r_ID reg \<noteq> [] \<and>
           r_FirstName reg = i_FirstName input \<and>
           r_LastName reg = i_LastName input \<and>
           r_Email reg = i_Email input \<and>
           r_Phone reg = i_Phone input \<and>
           r_Organization reg = i_Organization input \<and>
           r_JobTitle reg = i_JobTitle input \<and>
           r_Country reg = i_Country input \<and>
           r_City reg = i_City input \<and>
           r_DietaryReqs reg = i_DietaryReqs input \<and>
           r_SpecialNeeds reg = i_SpecialNeeds input \<and>
           r_TicketType reg = i_TicketType input \<and>
           r_SessionsOfInt reg = i_SessionsOfInt input \<and>
           collections w' ''registrations'' =
             collections w ''registrations'' @ [(docID, encode_Registration reg)] \<and>
           stored_field w' ''registrations'' docID ''paymentStatus'' = Some (VString ''pending'') \<and>
           stored_field w' ''registrations'' docID ''registrationDate'' =
             Some (VTime (clock w (reads w))) \<and>
           stored_field w' ''registrations'' docID ''createdAt'' = Some (VTime (clock w (reads w))) \<and>
           stored_field w' ''registrations'' docID ''updatedAt'' = Some (VTime (clock w (reads w))) \<and>
           stored_field w' ''registrations'' docID ''userId'' = Some (VString (UID user)) \<and>
           DataTo_Registration (encode_Registration reg) = Inr (reg\<lparr>r_ID := []\<rparr>) \<and>
           (\<not> outage w' (length (calls w')) \<longrightarrow>
              snd (getUserRegistration w' (UID user)) = Inr reg)"
proof -
  define q where "q = StoreQuery ''registrations'' ''userId'' (VString (UID user))"
  define w1 where "w1 = w\<lparr>calls := calls w @ [q]\<rparr>"
  define w2 where "w2 = w1\<lparr>reads := Suc (reads w)\<rparr>"
  define now where "now = clock w (reads w)"
  define new where "new = new_registration user input now"
  define w3 where "w3 = put_collection (w2\<lparr>calls := calls w2 @ [StoreAdd ''registrations'']\<rparr>)
                          ''registrations'' (collections w2 ''registrations'' @ [(docID, encode_Registration new)])"
  define reg where "reg = new\<lparr>r_ID := docID\<rparr>"
  obtain err where g: "getUserRegistration w (UID user) = (w1, Inl err)"
    using getUserRegistration_unregistered [OF assms(3)]
      getUserRegistration_world [of w "UID user"]
    by (auto simp: prod_eq_iff w1_def q_def)
  have t: "time_Now w1 = (w2, now)"
    by (simp add: time_Now_def w2_def w1_def now_def)
  have add: "Coll_Add w2 ''registrations'' (encode_Registration new) = (w3, Inr docID)"
    unfolding w3_def
    by (rule Coll_Add_accepts) (use assms(4,5,6) in \<open>simp_all add: w2_def w1_def\<close>)
  have r: "CreateRegistration is_email w c (Some input) =
             (w3, 201, \<lparr>rr_Success = True,
                        rr_Message = Msg ''Registration created successfully'',
                        rr_Registration = Some reg\<rparr>)"
    using assms(1,2) g t add
    by (simp add: CreateRegistration_def ShouldBindJSON_def Let_def new_def reg_def reply_def)
  have status: "fst (snd (CreateRegistration is_email w c (Some input))) = 201"
    and carried: "rr_Registration (snd (snd (CreateRegistration is_email w c (Some input)))) = Some reg"
    by (simp_all add: r)
  have enc: "encode_Registration reg = encode_Registration new"
    by (simp add: reg_def encode_Registration_def)
  have coll: "collections w3 ''registrations'' =
                collections w ''registrations'' @ [(docID, encode_Registration reg)]"
    by (simp add: enc w3_def put_collection_def w2_def w1_def)
  have own: "encode_Registration reg ''userId'' = Some (VString (UID user))"
    by (simp add: encode_Registration_userId reg_def new_def new_registration_def)
  have f: "find (\<lambda>(ref, d). d ''userId'' = Some (VString (UID user))) (collections w3 ''registrations'') =
             Some (docID, encode_Registration reg)"
    by (simp add: coll find_append_none [OF find_unregistered [OF assms(3)]] own)
  have reread: "\<not> outage w3 (length (calls w3)) \<longrightarrow>
                  snd (getUserRegistration w3 (UID user)) = Inr reg"
    using getUserRegistration_found [OF _ f]
    by (simp add: DataTo_encode_Registration reg_def)
  have fields: "r_PaymentStatus reg = ''pending''" "r_RegistrationDate reg = clock w (reads w)"
    "r_CreatedAt reg = clock w (reads w)" "r_UpdatedAt reg = clock w (reads w)"
    "r_UserID reg = UID user" "r_ID reg = docID"
    by (simp_all add: reg_def new_def new_registration_def now_def)
  have contact: "r_FirstName reg = i_FirstName input" "r_LastName reg = i_LastName input"
    "r_Email reg = i_Email input" "r_Phone reg = i_Phone input"
    "r_Organization reg = i_Organization input" "r_JobTitle reg = i_JobTitle input"
    "r_Country reg = i_Country input" "r_City reg = i_City input"
    "r_DietaryReqs reg = i_DietaryReqs input" "r_SpecialNeeds reg = i_SpecialNeeds input"
    "r_TicketType reg = i_TicketType input" "r_SessionsOfInt reg = i_SessionsOfInt input"
    by (simp_all add: reg_def new_def new_registration_def)
  have at: "stored_field w3 ''registrations'' docID k = encode_Registration reg k" for k
    by (rule stored_field_appended [OF assms(6) coll])
  have stored: "stored_field w3 ''registrations'' docID ''paymentStatus'' = Some (VString ''pending'')"
    "stored_field w3 ''registrations'' docID ''registrationDate'' = Some (VTime (clock w (reads w)))"
    "stored_field w3 ''registrations'' docID ''createdAt'' = Some (VTime (clock w (reads w)))"
    "stored_field w3 ''registrations'' docID ''updatedAt'' = Some (VTime (clock w (reads w)))"
    "stored_field w3 ''registrations'' docID ''userId'' = Some (VString (UID user))"
    unfolding at
    by (simp_all add: encode_Registration_def reg_def new_def new_registration_def now_def)
  have shape: "reg = (new_registration user input (clock w (reads w)))\<lparr>r_ID := docID\<rparr>"
    by (simp add: reg_def new_def now_def)
  have nonempty: "r_ID reg \<noteq> []"
    using fields(6) assms(7) by simp
  show ?thesis
    using r status carried shape fields nonempty contact coll stored
      DataTo_encode_Registration [of reg] reread
    by (intro exI [of _ w3] exI [of _ reg] conjI)
qed

theorem create_registration_created_witness:
  "\<exists>w'. CreateRegistration has_at quiet_world ada_context (Some ada_input) =
           (w', 201, \<lparr>rr_Success = True,
                      rr_Message = Msg ''Registration created successfully'',
                      rr_Registration =
                        Some ((new_registration ada ada_input 100)\<lparr>r_ID := ''r1''\<rparr>)\<rparr>) \<and>
         map fst (collections w' ''registrations'') = [''r1''] \<and>
         stored_field w' ''registrations'' ''r1'' ''paymentStatus'' = Some (VString ''pending'')"
proof -
  have a: "ctx_user ada_context = Some (UserPtr ada)"
    by (simp add: ada_context_def set_identity_def)
  have b: "binding_ok has_at ada_input"
    by (simp add: binding_ok_def ada_input_def has_at_def)
  have c: "unregistered quiet_world (UID ada)"
    by (simp add: unregistered_def quiet_world_def)
  have d: "\<not> outage quiet_world (Suc (length (calls quiet_world)))"
    by (simp add: quiet_world_def)
  have e: "auto_id quiet_world (Suc (length (calls quiet_world))) = ''r1''"
    by (simp add: quiet_world_def)
  have f: "''r1'' \<notin> set (map fst (collections quiet_world ''registrations''))"
    by (simp add: quiet_world_def)
  have g: "''r1'' \<noteq> []" by simp
  have h: "clock quiet_world (reads quiet_world) = 100" "collections quiet_world ''registrations'' = []"
    by (simp_all add: quiet_world_def)
  from create_registration_created [OF a b c d e f g] show ?thesis
    unfolding h by auto
qed

text \<open>
  C5. An authenticated update with a valid input, for a subject whose Registration the
  first read finds, whose merge-write and re-read meet no outage
  (\<^verbatim>\<open>src/unnamed/part_001\<close> lines 187 to 232), is answered with 200, and the response
  carries the re-read Registration. The write touches one document, the one with the id of
  the Registration found, and merges into it exactly the user-editable fields and
  \<^verbatim>\<open>updatedAt\<close>: after it the document stores the values of the input under the twelve
  editable fields and the reading of the clock under \<^verbatim>\<open>updatedAt\<close>, and every other field
  of that document, every other document and the \<^verbatim>\<open>users\<close> collection are as they were.
  The Registration of the response has the editable fields of the input and the update
  time, and the payment status, registration date, creation time, document id and owner
  of the Registration found; a later read by subject, and the \<open>GetMyRegistration\<close>
  built on it, return that same Registration.
\<close>

theorem update_registration_merges:
  assumes "ctx_user c = Some (UserPtr user)"
    and "binding_ok is_email input"
    and "getUserRegistration w (UID user) = (w1, Inr existingReg)"
    and "\<not> outage w (Suc (length (calls w)))"
    and "\<not> outage w (Suc (Suc (length (calls w))))"
  shows "\<exists>w' updated.
           UpdateRegistration is_email w c (Some input) =
             (w', 200, \<lparr>rr_Success = True,
                        rr_Message = Msg ''Registration updated successfully'',
                        rr_Registration = Some updated\<rparr>) \<and>
           fst (snd (UpdateRegistration is_email w c (Some input))) = 200 \<and>
           rr_Registration (snd (snd (UpdateRegistration is_email w c (Some input)))) = Some updated \<and>
           updated = edited existingReg input (clock w (reads w)) \<and>
           r_FirstName updated = i_FirstName input \<and>
           r_LastName updated = i_LastName input \<and>
           r_Email updated = i_Email input \<and>
           r_Phone updated = i_Phone input \<and>
           r_Organization updated = i_Organization input \<and>
           r_JobTitle updated = i_JobTitle input \<and>
           r_Country updated = i_Country input \<and>
           r_City updated = i_City input \<and>
           r_DietaryReqs updated = i_DietaryReqs input \<and>
           r_SpecialNeeds updated = i_SpecialNeeds input \<and>
           r_TicketType updated = i_TicketType input \<and>
           r_SessionsOfInt updated = i_SessionsOfInt input \<and>
           r_UpdatedAt updated = clock w (reads w) \<and>
           r_PaymentStatus updated = r_PaymentStatus existingReg \<and>
           r_RegistrationDate updated = r_RegistrationDate existingReg \<and>
           r_CreatedAt updated = r_CreatedAt existingReg \<and>
           r_ID updated = r_ID existingReg \<and>
           r_UserID updated = r_UserID existingReg \<and>
           collections w' ''registrations'' =
             map (\<lambda>(ref, d). if ref = r_ID existingReg
                              then (ref, d ++ updates_map input (clock w (reads w)))
                              else (ref, d))
               (collections w ''registrations'') \<and>
           dom (updates_map input (clock w (reads w))) = set (''updatedAt'' # editable_fields) \<and>
           stored_field w' ''registrations'' (r_ID existingReg) ''firstName'' =
             Some (VString (i_FirstName input)) \<and>
           stored_field w' ''registrations'' (r_ID existingReg) ''lastName'' =
             Some (VString (i_LastName input)) \<and>
           stored_field w' ''registrations'' (r_ID existingReg) ''email'' =
             Some (VString (i_Email input)) \<and>
           stored_field w' ''registrations'' (r_ID existingReg) ''phone'' =
             Some (VString (i_Phone input)) \<and>
           stored_field w' ''registrations'' (r_ID existingReg) ''organization'' =
             Some (VString (i_Organization input)) \<and>
           stored_field w' ''registrations'' (r_ID existingReg) ''jobTitle'' =
             Some (VString (i_JobTitle input)) \<and>
           stored_field w' ''registrations'' (r_ID existingReg) ''country'' =
             Some (VString (i_Country input)) \<and>
           stored_field w' ''registrations'' (r_ID existingReg) ''city'' =
             Some (VString (i_City input)) \<and>
           stored_field w' ''registrations'' (r_ID existingReg) ''dietaryRequirements'' =
             Some (VString (i_DietaryReqs input)) \<and>
           stored_field w' ''registrations'' (r_ID existingReg) ''specialNeeds'' =
             Some (VString (i_SpecialNeeds input)) \<and>
           stored_field w' ''registrations'' (r_ID existingReg) ''ticketType'' =
             Some (VString (i_TicketType input)) \<and>
           stored_field w' ''registrations'' (r_ID existingReg) ''sessionsOfInterest'' =
             Some (VStrings (i_SessionsOfInt input)) \<and>
           stored_field w' ''registrations'' (r_ID existingReg) ''updatedAt'' =
             Some (VTime (clock w (reads w))) \<and>
           (\<forall>k. k \<notin> set (''updatedAt'' # editable_fields) \<longrightarrow>
              stored_field w' ''registrations'' (r_ID existingReg) k =
                stored_field w ''registrations'' (r_ID existingReg) k) \<and>
           collections w' ''users'' = collections w ''users'' \<and>
           (\<not> outage w' (length (calls w')) \<longrightarrow>
              snd (getUserRegistration w' (UID user)) = Inr updated \<and>
              snd (GetMyRegistration w' c) =
                (200, \<lparr>rr_Success = True,
                       rr_Message = Msg ''Registration retrieved successfully'',
                       rr_Registration = Some updated\<rparr>))"
proof -
  define uid where "uid = UID user"
  define ref0 where "ref0 = r_ID existingReg"
  define now where "now = clock w (reads w)"
  define g where "g = (\<lambda>(ref, d). if ref = ref0 then (ref, d ++ updates_map input now) else (ref :: string, d :: document))"
  define q where "q = StoreQuery ''registrations'' ''userId'' (VString uid)"
  define w2 where "w2 = w\<lparr>calls := calls w @ [q], reads := Suc (reads w)\<rparr>"
  define w3 where "w3 = put_collection (w2\<lparr>calls := calls w2 @ [StoreSetMerge ''registrations'' ref0]\<rparr>)
                          ''registrations'' (map g (collections w ''registrations''))"
  define w4 where "w4 = w3\<lparr>calls := calls w3 @ [q]\<rparr>"
  define updated where "updated = edited existingReg input now"
  from getUserRegistration_Inr [OF assms(3) [unfolded uid_def [symmetric]]]
  obtain d0 where
    f0: "find (\<lambda>(ref, d). d ''userId'' = Some (VString uid)) (collections w ''registrations'') =
           Some (ref0, d0)"
    and dec: "DataTo_Registration d0 = Inr (existingReg\<lparr>r_ID := []\<rparr>)"
    by (auto simp: ref0_def)
  have w1: "w1 = w\<lparr>calls := calls w @ [q]\<rparr>"
    using assms(3) getUserRegistration_world [of w "UID user"] by (simp add: q_def uid_def)
  have t: "time_Now w1 = (w2, now)"
    by (simp add: time_Now_def w1 w2_def now_def)
  have n2: "\<not> outage w2 (length (calls w2))"
    using assms(4) by (simp add: w2_def)
  from f0 have "(ref0, d0) \<in> set (collections w ''registrations'')"
    by (auto simp: find_Some_iff in_set_conv_nth)
  then have "ref0 \<in> set (map fst (collections w2 ''registrations''))"
    by (force simp: w2_def)
  then have wd: "write_doc ref0 (\<lambda>old. case old of None \<Rightarrow> updates_map input now
                                         | Some d \<Rightarrow> d ++ updates_map input now)
                   (collections w2 ''registrations'') = map g (collections w ''registrations'')"
    by (auto simp: write_doc_present g_def w2_def)
  have m: "Doc_SetMerge w2 ''registrations'' (r_ID existingReg) (updates_map input now) = (w3, None)"
    by (simp add: Doc_SetMerge_accepts [OF n2] w3_def wd ref0_def [symmetric])
  have c3: "collections w3 ''registrations'' =
              map (\<lambda>(r, d). if r = ref0 then (r, d ++ updates_map input now) else (r, d))
                (collections w ''registrations'')"
    by (simp add: w3_def put_collection_def g_def)
  have n3: "\<not> outage w3 (length (calls w3))"
    using assms(5) by (simp add: w3_def put_collection_def w2_def)
  have "snd (getUserRegistration w3 uid) =
          Inr ((edited (existingReg\<lparr>r_ID := []\<rparr>) input now)\<lparr>r_ID := ref0\<rparr>)"
    by (rule read_after_merge [OF f0 dec c3 n3])
  then have s3: "snd (getUserRegistration w3 uid) = Inr updated"
    by (simp add: ref0_def edited_ID updated_def)
  have "fst (getUserRegistration w3 uid) = w4"
    by (simp add: getUserRegistration_world w4_def q_def)
  with s3 have r3: "getUserRegistration w3 (UID user) = (w4, Inr updated)"
    by (simp add: prod_eq_iff uid_def)
  have r: "UpdateRegistration is_email w c (Some input) =
             (w4, 200, \<lparr>rr_Success = True,
                        rr_Message = Msg ''Registration updated successfully'',
                        rr_Registration = Some updated\<rparr>)"
    using assms(1,2,3) t m r3
    by (simp add: UpdateRegistration_def ShouldBindJSON_def reply_def)
  have status: "fst (snd (UpdateRegistration is_email w c (Some input))) = 200"
    and carried: "rr_Registration (snd (snd (UpdateRegistration is_email w c (Some input)))) =
                    Some updated"
    by (simp_all add: r)
  have present: "ref0 \<in> set (map fst (collections w ''registrations''))"
    using \<open>(ref0, d0) \<in> set (collections w ''registrations'')\<close> by force
  have c4w: "collections w4 ''registrations'' =
               write_doc ref0 (\<lambda>old. case old of None \<Rightarrow> updates_map input now
                                       | Some d \<Rightarrow> d ++ updates_map input now)
                 (collections w ''registrations'')"
    using wd by (simp add: w4_def w3_def put_collection_def w2_def)
  have at: "stored_field w4 ''registrations'' ref0 k =
              (case updates_map input now k of
                 None \<Rightarrow> stored_field w ''registrations'' ref0 k
               | Some v \<Rightarrow> Some v)" for k
    by (rule stored_field_merged [OF present c4w])
  have written: "stored_field w4 ''registrations'' ref0 ''firstName'' = Some (VString (i_FirstName input))"
    "stored_field w4 ''registrations'' ref0 ''lastName'' = Some (VString (i_LastName input))"
    "stored_field w4 ''registrations'' ref0 ''email'' = Some (VString (i_Email input))"
    "stored_field w4 ''registrations'' ref0 ''phone'' = Some (VString (i_Phone input))"
    "stored_field w4 ''registrations'' ref0 ''organization'' = Some (VString (i_Organization input))"
    "stored_field w4 ''registrations'' ref0 ''jobTitle'' = Some (VString (i_JobTitle input))"
    "stored_field w4 ''registrations'' ref0 ''country'' = Some (VString (i_Country input))"
    "stored_field w4 ''registrations'' ref0 ''city'' = Some (VString (i_City input))"
    "stored_field w4 ''registrations'' ref0 ''dietaryRequirements'' = Some (VString (i_DietaryReqs input))"
    "stored_field w4 ''registrations'' ref0 ''specialNeeds'' = Some (VString (i_SpecialNeeds input))"
    "stored_field w4 ''registrations'' ref0 ''ticketType'' = Some (VString (i_TicketType input))"
    "stored_field w4 ''registrations'' ref0 ''sessionsOfInterest'' = Some (VStrings (i_SessionsOfInt input))"
    "stored_field w4 ''registrations'' ref0 ''updatedAt'' = Some (VTime now)"
    by (simp_all add: at updates_map_values)
  have untouched: "\<forall>k. k \<notin> set (''updatedAt'' # editable_fields) \<longrightarrow>
                     stored_field w4 ''registrations'' ref0 k = stored_field w ''registrations'' ref0 k"
    by (simp add: at updates_map_untouched)
  have c4: "collections w4 ''registrations'' =
              map (\<lambda>(r, d). if r = ref0 then (r, d ++ updates_map input now) else (r, d))
                (collections w ''registrations'')"
    by (simp add: w4_def c3)
  have users: "collections w4 ''users'' = collections w ''users''"
    by (simp add: w4_def w3_def put_collection_def w2_def)
  have later: "\<not> outage w4 (length (calls w4)) \<longrightarrow>
                 snd (getUserRegistration w4 (UID user)) = Inr updated \<and>
                 snd (GetMyRegistration w4 c) =
                   (200, \<lparr>rr_Success = True,
                          rr_Message = Msg ''Registration retrieved successfully'',
                          rr_Registration = Some updated\<rparr>)"
  proof
    assume n4: "\<not> outage w4 (length (calls w4))"
    have "snd (getUserRegistration w4 uid) =
            Inr ((edited (existingReg\<lparr>r_ID := []\<rparr>) input now)\<lparr>r_ID := ref0\<rparr>)"
      by (rule read_after_merge [OF f0 dec c4 n4])
    then have s4: "snd (getUserRegistration w4 (UID user)) = Inr updated"
      by (simp add: ref0_def edited_ID updated_def uid_def)
    then obtain w5 where "getUserRegistration w4 (UID user) = (w5, Inr updated)"
      by (cases "getUserRegistration w4 (UID user)") auto
    then have "snd (GetMyRegistration w4 c) =
                 (200, \<lparr>rr_Success = True,
                        rr_Message = Msg ''Registration retrieved successfully'',
                        rr_Registration = Some updated\<rparr>)"
      using assms(1) by (simp add: GetMyRegistration_def reply_def)
    with s4 show "snd (getUserRegistration w4 (UID user)) = Inr updated \<and>
                 snd (GetMyRegistration w4 c) =
                   (200, \<lparr>rr_Success = True,
                          rr_Message = Msg ''Registration retrieved successfully'',
                          rr_Registration = Some updated\<rparr>)"
      by simp
  qed
  have keep: "r_PaymentStatus updated = r_PaymentStatus existingReg"
    "r_RegistrationDate updated = r_RegistrationDate existingReg"
    "r_CreatedAt updated = r_CreatedAt existingReg"
    "r_ID updated = r_ID existingReg"
    "r_UserID updated = r_UserID existingReg"
    by (simp_all add: updated_def edited_def)
  have changed: "r_FirstName updated = i_FirstName input" "r_LastName updated = i_LastName input"
    "r_Email updated = i_Email input" "r_Phone updated = i_Phone input"
    "r_Organization updated = i_Organization input" "r_JobTitle updated = i_JobTitle input"
    "r_Country updated = i_Country input" "r_City updated = i_City input"
    "r_DietaryReqs updated = i_DietaryReqs input" "r_SpecialNeeds updated = i_SpecialNeeds input"
    "r_TicketType updated = i_TicketType input" "r_SessionsOfInt updated = i_SessionsOfInt input"
    "r_UpdatedAt updated = clock w (reads w)"
    by (simp_all add: updated_def edited_def now_def)
  have shape: "updated = edited existingReg input (clock w (reads w))"
    by (simp add: updated_def now_def)
  show ?thesis
    using r status carried shape changed keep c4 [unfolded ref0_def now_def]
      dom_updates_map [of input "clock w (reads w)"]
      written [unfolded ref0_def now_def] untouched [unfolded ref0_def] users later
    by (intro exI [of _ w4] exI [of _ updated] conjI)
qed

theorem update_registration_merges_witness:
  "\<exists>w'. UpdateRegistration has_at registered_world ada_context
           (Some (ada_input\<lparr>i_City := ''London''\<rparr>)) =
         (w', 200, \<lparr>rr_Success = True,
                    rr_Message = Msg ''Registration updated successfully'',
                    rr_Registration =
                      Some (edited (ada_registration\<lparr>r_ID := ''r0''\<rparr>)
                              (ada_input\<lparr>i_City := ''London''\<rparr>) 100)\<rparr>) \<and>
        stored_field w' ''registrations'' ''r0'' ''city'' = Some (VString ''London'') \<and>
        r_City (edited (ada_registration\<lparr>r_ID := ''r0''\<rparr>)
                  (ada_input\<lparr>i_City := ''London''\<rparr>) 100) = ''London'' \<and>
        r_PaymentStatus (edited (ada_registration\<lparr>r_ID := ''r0''\<rparr>)
                  (ada_input\<lparr>i_City := ''London''\<rparr>) 100) = ''pending'' \<and>
        r_CreatedAt (edited (ada_registration\<lparr>r_ID := ''r0''\<rparr>)
                  (ada_input\<lparr>i_City := ''London''\<rparr>) 100) = 50"
proof -
  define input where "input = ada_input\<lparr>i_City := ''London''\<rparr>"
  define w1 where "w1 = fst (getUserRegistration registered_world (UID ada))"
  have a: "ctx_user ada_context = Some (UserPtr ada)"
    by (simp add: ada_context_def set_identity_def)
  have b: "binding_ok has_at input"
    by (simp add: binding_ok_def input_def ada_input_def has_at_def)
  have "snd (getUserRegistration registered_world (UID ada)) = Inr (ada_registration\<lparr>r_ID := ''r0''\<rparr>)"
    by (rule getUserRegistration_ada) (simp_all add: registered_world_def quiet_world_def)
  then have c: "getUserRegistration registered_world (UID ada) =
                  (w1, Inr (ada_registration\<lparr>r_ID := ''r0''\<rparr>))"
    by (simp add: prod_eq_iff w1_def)
  have d: "\<not> outage registered_world (Suc (length (calls registered_world)))"
    by (simp add: registered_world_def quiet_world_def)
  have e: "\<not> outage registered_world (Suc (Suc (length (calls registered_world))))"
    by (simp add: registered_world_def quiet_world_def)
  have t: "clock registered_world (reads registered_world) = 100"
    by (simp add: registered_world_def quiet_world_def)
  have k: "r_City (edited (ada_registration\<lparr>r_ID := ''r0''\<rparr>) input 100) = ''London''"
    "r_PaymentStatus (edited (ada_registration\<lparr>r_ID := ''r0''\<rparr>) input 100) = ''pending''"
    "r_CreatedAt (edited (ada_registration\<lparr>r_ID := ''r0''\<rparr>) input 100) = 50"
    by (simp_all add: edited_def input_def ada_registration_def new_registration_def)
  have i: "r_ID (ada_registration\<lparr>r_ID := ''r0''\<rparr>) = ''r0''" "i_City input = ''London''"
    by (simp_all add: input_def)
  from update_registration_merges [OF a b c d e] obtain w' where
    "UpdateRegistration has_at registered_world ada_context (Some input) =
       (w', 200, \<lparr>rr_Success = True,
                  rr_Message = Msg ''Registration updated successfully'',
                  rr_Registration = Some (edited (ada_registration\<lparr>r_ID := ''r0''\<rparr>) input 100)\<rparr>)"
    and "stored_field w' ''registrations'' ''r0'' ''city'' = Some (VString ''London'')"
    unfolding t i by blast
  with k show ?thesis
    unfolding input_def by blast
qed

text \<open>
  C6, as the code has it. \<open>saveUserToFirestore\<close> (\<^verbatim>\<open>src/unnamed/part_001\<close> lines 539 to
  559), which the login handler calls with the profile it has built from the provider's
  user record, reads the Profile document of the subject, sets the two timestamps of the
  profile it was given and writes it with \<^verbatim>\<open>docRef.Set(ctx, user)\<close>, without a merge
  option. When the write meets no outage: the stored Profile document of the subject is
  replaced by the encoding of the saved profile, so it holds exactly the nine fields of
  \<^verbatim>\<open>models.User\<close> with the values of the new profile, and no other Profile document
  changes; if no Profile document existed, \<^verbatim>\<open>createdAt\<close> is the reading of the clock taken
  then and \<^verbatim>\<open>updatedAt\<close> the next reading; if one existed, was read and decoded,
  \<^verbatim>\<open>createdAt\<close> is the stored one and \<^verbatim>\<open>updatedAt\<close> is the reading of the clock.
\<close>

theorem saveUserToFirestore_replaces_profile:
  assumes "\<not> outage w (Suc (length (calls w)))"
  shows "\<exists>w' saved.
           saveUserToFirestore w user = (w', saved, None) \<and>
           map_of (collections w' ''users'') (UID user) = Some (encode_User saved) \<and>
           dom (encode_User saved) = set (map fst User_schema) \<and>
           (\<forall>ref. ref \<noteq> UID user \<longrightarrow>
              map_of (collections w' ''users'') ref = map_of (collections w ''users'') ref) \<and>
           saved\<lparr>CreatedAt := 0, UpdatedAt := 0\<rparr> = user\<lparr>CreatedAt := 0, UpdatedAt := 0\<rparr> \<and>
           (map_of (collections w ''users'') (UID user) = None \<longrightarrow>
              CreatedAt saved = clock w (reads w) \<and> UpdatedAt saved = clock w (Suc (reads w))) \<and>
           (\<forall>existingUser. profile_read w (UID user) = Some existingUser \<longrightarrow>
              CreatedAt saved = CreatedAt existingUser \<and> UpdatedAt saved = clock w (reads w))"
proof -
  define w' where "w' = fst (saveUserToFirestore w user)"
  define saved where "saved = fst (snd (saveUserToFirestore w user))"
  have r: "saveUserToFirestore w user = (w', saved, None)"
    using save_error [OF assms, of user] by (simp add: prod_eq_iff w'_def saved_def)
  have c: "collections w' ''users'' =
             write_doc (UID user) (\<lambda>_. encode_User saved) (collections w ''users'')"
    unfolding w'_def saved_def by (rule save_collection [OF assms])
  have own: "map_of (collections w' ''users'') (UID user) = Some (encode_User saved)"
    by (simp add: c map_of_write_doc_same)
  have others: "\<forall>ref. ref \<noteq> UID user \<longrightarrow>
                  map_of (collections w' ''users'') ref = map_of (collections w ''users'') ref"
    by (simp add: c map_of_write_doc_other)
  have rest: "saved\<lparr>CreatedAt := 0, UpdatedAt := 0\<rparr> = user\<lparr>CreatedAt := 0, UpdatedAt := 0\<rparr>"
    unfolding saved_def by (rule save_other_fields)
  have fresh: "map_of (collections w ''users'') (UID user) = None \<longrightarrow>
                 CreatedAt saved = clock w (reads w) \<and> UpdatedAt saved = clock w (Suc (reads w))"
    unfolding saved_def using save_new_profile [of w user] by blast
  have kept: "\<forall>existingUser. profile_read w (UID user) = Some existingUser \<longrightarrow>
                CreatedAt saved = CreatedAt existingUser \<and> UpdatedAt saved = clock w (reads w)"
    unfolding saved_def using save_existing_profile [of w user] by blast
  show ?thesis
    using r own dom_encode_User [of saved] others rest fresh kept
    by (intro exI [of _ w'] exI [of _ saved] conjI)
qed

theorem saveUserToFirestore_replaces_profile_witness:
  "\<exists>w' saved.
     saveUserToFirestore profiled_world (ada\<lparr>Provider := ''google.com'', LastLoginAt := 100\<rparr>) =
       (w', saved, None) \<and>
     map_of (collections w' ''users'') ''u1'' = Some (encode_User saved) \<and>
     CreatedAt saved = 7 \<and> UpdatedAt saved = 100 \<and> LastLoginAt saved = 100"
proof -
  define user where "user = ada\<lparr>Provider := ''google.com'', LastLoginAt := 100\<rparr>"
  have uid: "UID user = ''u1''"
    by (simp add: user_def ada_def auth_user_def ada_record_def)
  have n: "\<not> outage profiled_world (Suc (length (calls profiled_world)))"
    by (simp add: profiled_world_def quiet_world_def)
  have d: "DataTo_User ((encode_User ada_profile)(''role'' \<mapsto> VString ''admin'')) = Inr ada_profile"
    by (simp add: DataTo_User_def encode_User_def decodable_def User_schema_def
        get_string_def get_bool_def get_time_def)
  have p: "profile_read profiled_world (UID user) = Some ada_profile"
    by (simp add: uid profile_read_def Doc_Get_def rpc_def profiled_world_def quiet_world_def d)
  have t: "clock profiled_world (reads profiled_world) = 100" "CreatedAt ada_profile = 7"
    by (simp_all add: profiled_world_def quiet_world_def ada_profile_def)
  from saveUserToFirestore_replaces_profile [OF n, of user]
  obtain w' saved where
    r: "saveUserToFirestore profiled_world user = (w', saved, None)"
    and s: "map_of (collections w' ''users'') (UID user) = Some (encode_User saved)"
    and e: "saved\<lparr>CreatedAt := 0, UpdatedAt := 0\<rparr> = user\<lparr>CreatedAt := 0, UpdatedAt := 0\<rparr>"
    and k: "\<forall>existingUser. profile_read profiled_world (UID user) = Some existingUser \<longrightarrow>
              CreatedAt saved = CreatedAt existingUser \<and>
              UpdatedAt saved = clock profiled_world (reads profiled_world)"
    by blast
  from k p t have ts: "CreatedAt saved = 7" "UpdatedAt saved = 100" by simp_all
  from arg_cong [OF e, of LastLoginAt] have l: "LastLoginAt saved = 100"
    by (simp add: user_def)
  from s uid have s': "map_of (collections w' ''users'') ''u1'' = Some (encode_User saved)"
    by simp
  from r s' ts l show ?thesis
    unfolding user_def by blast
qed

text \<open>
  C6 as stated fails. The write of a login has no merge semantics: a stored Profile with
  a verified email and a field \<^verbatim>\<open>role\<close> that the login does not touch has, after a login
  answered with 200, no field \<^verbatim>\<open>role\<close> and an unverified email. And an existing Profile
  keeps its \<^verbatim>\<open>createdAt\<close> only if the login can read it: when the read meets an outage,
  the stored creation time 7 is replaced by the reading of the clock.
\<close>

theorem GoogleLogin_drops_untouched_fields:
  "stored_field profiled_world ''users'' ''u1'' ''role'' = Some (VString ''admin'') \<and>
   stored_field profiled_world ''users'' ''u1'' ''emailVerified'' = Some (VBool True) \<and>
   fst (snd (GoogleLogin profiled_world (Some ''t1''))) = 200 \<and>
   ar_Message (snd (snd (GoogleLogin profiled_world (Some ''t1'')))) = ''Logged in successfully'' \<and>
   stored_field (fst (GoogleLogin profiled_world (Some ''t1''))) ''users'' ''u1'' ''role'' = None \<and>
   stored_field (fst (GoogleLogin profiled_world (Some ''t1''))) ''users'' ''u1'' ''emailVerified'' =
     Some (VBool False) \<and>
   stored_field unread_world ''users'' ''u1'' ''createdAt'' = Some (VTime 7) \<and>
   fst (snd (GoogleLogin unread_world (Some ''t1''))) = 200 \<and>
   stored_field (fst (GoogleLogin unread_world (Some ''t1''))) ''users'' ''u1'' ''createdAt'' =
     Some (VTime 101)"
proof -
  have before: "stored_field profiled_world ''users'' ''u1'' ''role'' = Some (VString ''admin'')"
    "stored_field profiled_world ''users'' ''u1'' ''emailVerified'' = Some (VBool True)"
    "stored_field unread_world ''users'' ''u1'' ''createdAt'' = Some (VTime 7)"
    by (simp_all add: stored_field_def unread_world_def profiled_world_def quiet_world_def
        encode_User_def ada_profile_def)
  have uid: "UID (login_user ada_record t) = ''u1''"
    and ev: "EmailVerified (login_user ada_record t) = False" for t
    by (simp_all add: login_user_def ada_record_def)
  have tok: "''t1'' \<noteq> []" by simp
  \<comment> \<open>the login that reads the Profile\<close>
  define p2 where "p2 = profiled_world\<lparr>calls := [AuthVerify ''t1'', AuthGetUser ''u1'']\<rparr>"
  define p3 where "p3 = p2\<lparr>reads := Suc (reads p2)\<rparr>"
  define pu where "pu = login_user ada_record (clock p2 (reads p2))"
  have pv: "VerifyIDToken profiled_world ''t1'' =
             (profiled_world\<lparr>calls := [AuthVerify ''t1'']\<rparr>, Inr \<lparr>tok_UID = ''u1''\<rparr>)"
    by (simp add: VerifyIDToken_def Auth_VerifyIDToken_def rpc_def profiled_world_def quiet_world_def)
  have pg: "GetUser (profiled_world\<lparr>calls := [AuthVerify ''t1'']\<rparr>) (tok_UID \<lparr>tok_UID = ''u1''\<rparr>) =
             (p2, Inr ada_record)"
    by (simp add: GetUser_def Auth_GetUser_def rpc_def profiled_world_def quiet_world_def
        ada_record_def p2_def)
  have pn: "\<not> outage p2 (Suc (length (calls p2)))"
    by (simp add: p2_def profiled_world_def quiet_world_def)
  have pn3: "\<not> outage p3 (Suc (length (calls p3)))"
    using pn by (simp add: p3_def)
  have plogin: "GoogleLogin profiled_world (Some ''t1'') =
                  (fst (saveUserToFirestore p3 pu), 200,
                   auth_reply True ''Logged in successfully''
                     (Some (fst (snd (saveUserToFirestore p3 pu)))) ''t1'')"
    unfolding p3_def pu_def by (rule GoogleLogin_saves [OF tok pv pg pn])
  have pafter: "stored_field (fst (saveUserToFirestore p3 pu)) ''users'' ''u1'' k =
                  encode_User (fst (snd (saveUserToFirestore p3 pu))) k" for k
    using stored_field_after_save [OF pn3, of pu k] by (simp add: pu_def uid)
  have pev: "EmailVerified (fst (snd (saveUserToFirestore p3 pu))) = False"
    by (simp add: save_EmailVerified pu_def ev)
  \<comment> \<open>the login whose read of the Profile fails\<close>
  define u2 where "u2 = unread_world\<lparr>calls := [AuthVerify ''t1'', AuthGetUser ''u1'']\<rparr>"
  define u3 where "u3 = u2\<lparr>reads := Suc (reads u2)\<rparr>"
  define uu where "uu = login_user ada_record (clock u2 (reads u2))"
  have uv: "VerifyIDToken unread_world ''t1'' =
             (unread_world\<lparr>calls := [AuthVerify ''t1'']\<rparr>, Inr \<lparr>tok_UID = ''u1''\<rparr>)"
    by (simp add: VerifyIDToken_def Auth_VerifyIDToken_def rpc_def unread_world_def
        profiled_world_def quiet_world_def)
  have ug: "GetUser (unread_world\<lparr>calls := [AuthVerify ''t1'']\<rparr>) (tok_UID \<lparr>tok_UID = ''u1''\<rparr>) =
             (u2, Inr ada_record)"
    by (simp add: GetUser_def Auth_GetUser_def rpc_def unread_world_def profiled_world_def
        quiet_world_def ada_record_def u2_def)
  have un: "\<not> outage u2 (Suc (length (calls u2)))"
    by (simp add: u2_def unread_world_def profiled_world_def quiet_world_def)
  have un3: "\<not> outage u3 (Suc (length (calls u3)))"
    using un by (simp add: u3_def)
  have down: "outage u3 (length (calls u3))"
    by (simp add: u3_def u2_def unread_world_def)
  have ulogin: "GoogleLogin unread_world (Some ''t1'') =
                  (fst (saveUserToFirestore u3 uu), 200,
                   auth_reply True ''Logged in successfully''
                     (Some (fst (snd (saveUserToFirestore u3 uu)))) ''t1'')"
    unfolding u3_def uu_def by (rule GoogleLogin_saves [OF tok uv ug un])
  have uafter: "stored_field (fst (saveUserToFirestore u3 uu)) ''users'' ''u1'' k =
                  encode_User (fst (snd (saveUserToFirestore u3 uu))) k" for k
    using stored_field_after_save [OF un3, of uu k] by (simp add: uu_def uid)
  have "CreatedAt (fst (snd (saveUserToFirestore u3 uu))) = clock u3 (reads u3)"
    by (rule save_unread_profile [OF down])
  also have "clock u3 (reads u3) = 101"
    by (simp add: u3_def u2_def unread_world_def profiled_world_def quiet_world_def)
  finally have created: "CreatedAt (fst (snd (saveUserToFirestore u3 uu))) = 101" .
  show ?thesis
    by (simp add: before plogin pafter pev ulogin uafter created encode_User_fields
        encode_User_createdAt auth_reply_def)
qed

text \<open>
  C7, as the code has it. \<open>OptionalAuth\<close> (\<^verbatim>\<open>src/unnamed/part_000\<close> lines 393 to 446)
  parses the header, verifies the credential and fetches the user record as
  \<open>RequireAuth\<close> does, with the same remote calls in the same order, and turns every
  failure into a request that proceeds without identity. It does not read the Profile:
  where \<open>RequireAuth\<close> resolves an identity, \<open>OptionalAuth\<close> resolves the same identity
  with the enrichment fields (created, updated, last login, provider) at their zero
  values, and makes one remote call less.
\<close>

theorem OptionalAuth_is_RequireAuth_without_enrichment:
  "OptionalAuth w header = optional_of (RequireAuth w header)"
proof (cases "GetHeader header = []")
  case True
  then show ?thesis
    by (simp add: OptionalAuth_def RequireAuth_def optional_of_def unauthorized_def)
next
  case nonempty: False
  show ?thesis
  proof (cases "\<exists>idToken. strings_Split (GetHeader header) (CHR '' '') = [''Bearer'', idToken]")
    case False
    with nonempty show ?thesis
      unfolding OptionalAuth_def RequireAuth_def Let_def
      by (simp add: optional_of_def unauthorized_def split: list.split)
  next
    case True
    then obtain idToken where s: "strings_Split (GetHeader header) (CHR '' '') = [''Bearer'', idToken]"
      by blast
    obtain w1 v where v: "VerifyIDToken w idToken = (w1, v)"
      by (cases "VerifyIDToken w idToken") auto
    show ?thesis
    proof (cases v)
      case (Inl err)
      with nonempty s v show ?thesis
        unfolding OptionalAuth_def RequireAuth_def Let_def
        by (simp add: optional_of_def unauthorized_def)
    next
      case token: (Inr token)
      obtain w2 u where u: "GetUser w1 (tok_UID token) = (w2, u)"
        by (cases "GetUser w1 (tok_UID token)") auto
      show ?thesis
      proof (cases u)
        case (Inl err)
        with nonempty s v token u show ?thesis
          unfolding OptionalAuth_def RequireAuth_def Let_def
          by (simp add: optional_of_def unauthorized_def)
      next
        case (Inr userRecord)
        obtain w3 doc err where g: "Doc_Get w2 ''users'' (tok_UID token) = (w3, doc, err)"
          by (cases "Doc_Get w2 ''users'' (tok_UID token)") auto
        from nonempty s v token u Inr g show ?thesis
          unfolding OptionalAuth_def RequireAuth_def Let_def
          by (simp add: optional_of_resolved [OF g])
      qed
    qed
  qed
qed

theorem OptionalAuth_is_RequireAuth_without_enrichment_witness:
  "OptionalAuth profiled_world (Some ''Bearer t1'') =
     optional_of (RequireAuth profiled_world (Some ''Bearer t1''))"
  by (rule OptionalAuth_is_RequireAuth_without_enrichment)

text \<open>
  C7 as stated fails: for a subject with a stored Profile the required path merges the
  Profile's timestamps and provider tag into the identity and reads the \<^verbatim>\<open>users\<close>
  collection, the optional path does neither.
\<close>

theorem OptionalAuth_skips_enrichment:
  "snd (RequireAuth profiled_world (Some ''Bearer t1'')) =
     Next (set_identity
             (ada\<lparr>CreatedAt := 7, UpdatedAt := 8, LastLoginAt := 9, Provider := ''google.com''\<rparr>)
             \<lparr>tok_UID = ''u1''\<rparr>) \<and>
   snd (OptionalAuth profiled_world (Some ''Bearer t1'')) =
     Next (set_identity ada \<lparr>tok_UID = ''u1''\<rparr>) \<and>
   calls (fst (RequireAuth profiled_world (Some ''Bearer t1''))) =
     [AuthVerify ''t1'', AuthGetUser ''u1'', StoreGet ''users'' ''u1''] \<and>
   calls (fst (OptionalAuth profiled_world (Some ''Bearer t1''))) =
     [AuthVerify ''t1'', AuthGetUser ''u1'']"
proof -
  have s: "strings_Split (GetHeader (Some ''Bearer t1'')) (CHR '' '') = [''Bearer'', ''t1'']"
    by (simp add: GetHeader_def)
  have v: "VerifyIDToken profiled_world ''t1'' =
             (profiled_world\<lparr>calls := [AuthVerify ''t1'']\<rparr>, Inr \<lparr>tok_UID = ''u1''\<rparr>)"
    by (simp add: VerifyIDToken_def Auth_VerifyIDToken_def rpc_def profiled_world_def quiet_world_def)
  have u: "GetUser (profiled_world\<lparr>calls := [AuthVerify ''t1'']\<rparr>) ''u1'' =
             (profiled_world\<lparr>calls := [AuthVerify ''t1'', AuthGetUser ''u1'']\<rparr>, Inr ada_record)"
    by (simp add: GetUser_def Auth_GetUser_def rpc_def profiled_world_def quiet_world_def
        ada_record_def)
  have g: "Doc_Get (profiled_world\<lparr>calls := [AuthVerify ''t1'', AuthGetUser ''u1'']\<rparr>) ''users'' ''u1'' =
             (profiled_world\<lparr>calls := [AuthVerify ''t1'', AuthGetUser ''u1'', StoreGet ''users'' ''u1'']\<rparr>,
              Some ((encode_User ada_profile)(''role'' \<mapsto> VString ''admin'')), None)"
    by (simp add: Doc_Get_def rpc_def profiled_world_def quiet_world_def)
  have d: "DataTo_User ((encode_User ada_profile)(''role'' \<mapsto> VString ''admin'')) = Inr ada_profile"
    by (simp add: DataTo_User_def encode_User_def decodable_def User_schema_def
        get_string_def get_bool_def get_time_def)
  have m: "merge_firestore_user (auth_user ada_record)
             (Some ((encode_User ada_profile)(''role'' \<mapsto> VString ''admin''))) None =
           ada\<lparr>CreatedAt := 7, UpdatedAt := 8, LastLoginAt := 9, Provider := ''google.com''\<rparr>"
    by (simp add: merge_firestore_user_def d ada_def) (simp add: ada_profile_def)
  have r: "RequireAuth profiled_world (Some ''Bearer t1'') =
             (profiled_world\<lparr>calls := [AuthVerify ''t1'', AuthGetUser ''u1'', StoreGet ''users'' ''u1'']\<rparr>,
              Next (set_identity
                      (ada\<lparr>CreatedAt := 7, UpdatedAt := 8, LastLoginAt := 9, Provider := ''google.com''\<rparr>)
                      \<lparr>tok_UID = ''u1''\<rparr>))"
    unfolding RequireAuth_def Let_def s
    by (simp add: GetHeader_def v u g m)
  have o: "OptionalAuth profiled_world (Some ''Bearer t1'') =
             (profiled_world\<lparr>calls := [AuthVerify ''t1'', AuthGetUser ''u1'']\<rparr>,
              Next (set_identity ada \<lparr>tok_UID = ''u1''\<rparr>))"
    unfolding OptionalAuth_def Let_def s
    by (simp add: GetHeader_def v u ada_def)
  show ?thesis by (simp add: r o)
qed

text \<open>
  C8. A create or an update request of an authenticated user whose input fails
  required-field validation (\<^verbatim>\<open>c.ShouldBindJSON\<close> over the \<^verbatim>\<open>binding\<close> tags of
  \<^verbatim>\<open>RegistrationInput\<close>; \<^verbatim>\<open>src/unnamed/part_001\<close> lines 58 to 65 and 178 to 185) is answered
  with 400 and leaves the world as it was: no document is written or changed and the log
  of store calls is unchanged.
\<close>

theorem invalid_input_rejected:
  assumes "ctx_user c = Some (UserPtr user)"
    and "fails_validation is_email input"
  shows "CreateRegistration is_email w c (Some input) =
           (w, 400, reply False (MsgErr ''Invalid request: '' BindingFailed) None) \<and>
         UpdateRegistration is_email w c (Some input) =
           (w, 400, reply False (MsgErr ''Invalid request: '' BindingFailed) None)"
proof -
  from assms(2) have "\<not> binding_ok is_email input"
    by (auto simp: fails_validation_def binding_ok_def)
  then have "ShouldBindJSON is_email (Some input) = Inl BindingFailed"
    by (simp add: ShouldBindJSON_def)
  with assms(1) show ?thesis
    by (simp add: CreateRegistration_def UpdateRegistration_def)
qed

theorem invalid_input_rejected_witness:
  "ctx_user ada_context = Some (UserPtr ada) \<and>
   fails_validation has_at (ada_input\<lparr>i_FirstName := []\<rparr>) \<and>
   CreateRegistration has_at registered_world ada_context (Some (ada_input\<lparr>i_FirstName := []\<rparr>)) =
     (registered_world, 400, reply False (MsgErr ''Invalid request: '' BindingFailed) None) \<and>
   UpdateRegistration has_at registered_world ada_context (Some (ada_input\<lparr>i_FirstName := []\<rparr>)) =
     (registered_world, 400, reply False (MsgErr ''Invalid request: '' BindingFailed) None)"
proof -
  have a: "ctx_user ada_context = Some (UserPtr ada)"
    by (simp add: ada_context_def set_identity_def)
  have b: "fails_validation has_at (ada_input\<lparr>i_FirstName := []\<rparr>)"
    by (simp add: fails_validation_def)
  from a b invalid_input_rejected [OF a b, of registered_world] show ?thesis
    by simp
qed

text \<open>
  C9. In \<open>CreateRegistration\<close> the error of the duplicate check is discarded
  (\<^verbatim>\<open>existingReg, _ := h.getUserRegistration(ctx, user.UID)\<close>, \<^verbatim>\<open>src/unnamed/part_001\<close> lines
  69 to 78): whenever the check returns an error, whatever it is, create goes on to the
  insert, and when the store accepts the insert the response is 201 and the new document
  is appended to the collection, next to every document that was there. If the subject
  already had a Registration document, the store then holds at least two.
\<close>

theorem create_proceeds_after_failed_check:
  assumes "ctx_user c = Some (UserPtr user)"
    and "binding_ok is_email input"
    and "getUserRegistration w (UID user) = (w1, Inl err)"
    and "time_Now w1 = (w2, now)"
    and "Coll_Add w2 ''registrations'' (encode_Registration (new_registration user input now)) =
           (w3, Inr docID)"
  shows "CreateRegistration is_email w c (Some input) =
           (w3, 201, reply True (Msg ''Registration created successfully'')
                       (Some ((new_registration user input now)\<lparr>r_ID := docID\<rparr>))) \<and>
         collections w3 ''registrations'' =
           collections w ''registrations'' @
             [(docID, encode_Registration (new_registration user input now))] \<and>
         (\<not> unregistered w (UID user) \<longrightarrow>
            2 \<le> length (filter (\<lambda>(ref, d). d ''userId'' = Some (VString (UID user)))
                          (collections w3 ''registrations'')))"
proof -
  have r: "CreateRegistration is_email w c (Some input) =
           (w3, 201, reply True (Msg ''Registration created successfully'')
                       (Some ((new_registration user input now)\<lparr>r_ID := docID\<rparr>)))"
    using assms by (simp add: CreateRegistration_def ShouldBindJSON_def Let_def)
  have "w1 = fst (getUserRegistration w (UID user))" using assms(3) by simp
  then have c1: "collections w1 = collections w"
    by (simp add: getUserRegistration_world)
  from assms(4) have c2: "collections w2 = collections w1"
    by (auto simp: time_Now_def)
  from Coll_Add_Inr [OF assms(5)] c1 c2
  have c3: "collections w3 ''registrations'' =
           collections w ''registrations'' @
             [(docID, encode_Registration (new_registration user input now))]"
    by simp
  have own: "encode_Registration (new_registration user input now) ''userId'' =
               Some (VString (UID user))"
    by (simp add: encode_Registration_userId new_registration_def)
  have "\<not> unregistered w (UID user) \<Longrightarrow>
          1 \<le> length (filter (\<lambda>(ref, d). d ''userId'' = Some (VString (UID user)))
                        (collections w ''registrations''))"
    unfolding unregistered_def list_all_iff
    by (auto simp: Suc_le_eq length_greater_0_conv filter_empty_conv)
  with c3 own r show ?thesis by auto
qed

theorem create_proceeds_after_failed_check_witness:
  "fst (snd (CreateRegistration has_at (registered_world\<lparr>outage := (\<lambda>n. n = 0)\<rparr>)
               ada_context (Some ada_input))) = 201 \<and>
   map fst (collections
              (fst (CreateRegistration has_at (registered_world\<lparr>outage := (\<lambda>n. n = 0)\<rparr>)
                      ada_context (Some ada_input)))
              ''registrations'') = [''r0'', ''r1'']"
proof -
  define w where "w = registered_world\<lparr>outage := (\<lambda>n. n = 0)\<rparr>"
  define w1 where "w1 = fst (getUserRegistration w (UID ada))"
  define w2 where "w2 = w1\<lparr>reads := Suc 0\<rparr>"
  define doc where "doc = encode_Registration (new_registration ada ada_input 100)"
  define w3 where "w3 = fst (Coll_Add w2 ''registrations'' doc)"
  have a: "ctx_user ada_context = Some (UserPtr ada)"
    by (simp add: ada_context_def set_identity_def)
  have b: "binding_ok has_at ada_input"
    by (simp add: binding_ok_def ada_input_def has_at_def)
  have "outage w (length (calls w))"
    by (simp add: w_def registered_world_def quiet_world_def)
  then have c: "getUserRegistration w (UID ada) = (w1, Inl Unavailable)"
    by (simp add: prod_eq_iff w1_def getUserRegistration_outage)
  have w1: "w1 = w\<lparr>calls := calls w @ [StoreQuery ''registrations'' ''userId'' (VString (UID ada))]\<rparr>"
    by (simp add: w1_def getUserRegistration_world)
  have d: "time_Now w1 = (w2, 100)"
    by (simp add: time_Now_def w2_def w1 w_def registered_world_def quiet_world_def)
  have "Coll_Add w2 ''registrations'' doc =
          (put_collection (w2\<lparr>calls := calls w2 @ [StoreAdd ''registrations'']\<rparr>) ''registrations''
             (collections w2 ''registrations'' @ [(''r1'', doc)]), Inr ''r1'')"
    by (rule Coll_Add_accepts)
      (simp_all add: w2_def w1 w_def registered_world_def quiet_world_def)
  then have e: "Coll_Add w2 ''registrations'' doc = (w3, Inr ''r1'')"
    by (simp add: w3_def)
  from create_proceeds_after_failed_check [OF a b c d e [unfolded doc_def]]
  have "CreateRegistration has_at w ada_context (Some ada_input) =
          (w3, 201, reply True (Msg ''Registration created successfully'')
                      (Some ((new_registration ada ada_input 100)\<lparr>r_ID := ''r1''\<rparr>)))"
    and "collections w3 ''registrations'' =
           collections w ''registrations'' @ [(''r1'', doc)]"
    by (simp_all add: doc_def)
  then show ?thesis
    by (simp add: w_def [symmetric]) (simp add: w_def registered_world_def quiet_world_def)
qed

text \<open>
  C10. When \<open>UpdateRegistration\<close> has found the registration and the merge-write has
  succeeded, a failure of the re-read (\<^verbatim>\<open>src/unnamed/part_001\<close> lines 225 to 232, where the
  error is discarded) still gives status 200 with the message
  \<^verbatim>\<open>Registration updated successfully\<close>, and the response carries no Registration.
\<close>

theorem update_ok_without_reread:
  assumes "ctx_user c = Some (UserPtr user)"
    and "binding_ok is_email input"
    and "getUserRegistration w (UID user) = (w1, Inr existingReg)"
    and "time_Now w1 = (w2, now)"
    and "Doc_SetMerge w2 ''registrations'' (r_ID existingReg) (updates_map input now) = (w3, None)"
    and "getUserRegistration w3 (UID user) = (w4, Inl err)"
  shows "UpdateRegistration is_email w c (Some input) =
           (w4, 200, \<lparr>rr_Success = True,
                      rr_Message = Msg ''Registration updated successfully'',
                      rr_Registration = None\<rparr>)"
  using assms by (simp add: UpdateRegistration_def ShouldBindJSON_def reply_def)

theorem update_ok_without_reread_witness:
  "UpdateRegistration has_at (registered_world\<lparr>outage := (\<lambda>n. n = 2)\<rparr>) ada_context
     (Some (ada_input\<lparr>i_City := ''London''\<rparr>)) =
   (fst (UpdateRegistration has_at (registered_world\<lparr>outage := (\<lambda>n. n = 2)\<rparr>) ada_context
           (Some (ada_input\<lparr>i_City := ''London''\<rparr>))),
    200, \<lparr>rr_Success = True,
           rr_Message = Msg ''Registration updated successfully'',
           rr_Registration = None\<rparr>)"
proof -
  define w where "w = registered_world\<lparr>outage := (\<lambda>n. n = 2)\<rparr>"
  define input where "input = ada_input\<lparr>i_City := ''London''\<rparr>"
  define q where "q = StoreQuery ''registrations'' ''userId'' (VString (UID ada))"
  define w1 where "w1 = w\<lparr>calls := [q]\<rparr>"
  define w2 where "w2 = w1\<lparr>reads := Suc 0\<rparr>"
  define w3 where "w3 = fst (Doc_SetMerge w2 ''registrations'' ''r0'' (updates_map input 100))"
  define w4 where "w4 = fst (getUserRegistration w3 (UID ada))"
  have a: "ctx_user ada_context = Some (UserPtr ada)"
    by (simp add: ada_context_def set_identity_def)
  have b: "binding_ok has_at input"
    by (simp add: binding_ok_def input_def ada_input_def has_at_def)
  have "snd (getUserRegistration w (UID ada)) = Inr (ada_registration\<lparr>r_ID := ''r0''\<rparr>)"
    by (rule getUserRegistration_ada) (simp_all add: w_def registered_world_def quiet_world_def)
  moreover have "fst (getUserRegistration w (UID ada)) = w1"
    by (simp add: getUserRegistration_world w1_def q_def w_def registered_world_def quiet_world_def)
  ultimately have c: "getUserRegistration w (UID ada) = (w1, Inr (ada_registration\<lparr>r_ID := ''r0''\<rparr>))"
    by (simp add: prod_eq_iff)
  have d: "time_Now w1 = (w2, 100)"
    by (simp add: time_Now_def w2_def w1_def w_def registered_world_def quiet_world_def)
  have n2: "\<not> outage w2 (length (calls w2))"
    by (simp add: w2_def w1_def w_def registered_world_def quiet_world_def)
  have e: "Doc_SetMerge w2 ''registrations'' (r_ID (ada_registration\<lparr>r_ID := ''r0''\<rparr>))
             (updates_map input 100) = (w3, None)"
    by (simp add: Doc_SetMerge_accepts [OF n2] w3_def)
  have "outage w3 (length (calls w3))"
    by (simp add: w3_def Doc_SetMerge_accepts [OF n2] put_collection_def)
      (simp add: w2_def w1_def w_def registered_world_def quiet_world_def)
  then have f: "getUserRegistration w3 (UID ada) = (w4, Inl Unavailable)"
    by (simp add: prod_eq_iff w4_def getUserRegistration_outage)
  from update_ok_without_reread [OF a b c d e f]
  show ?thesis by (simp add: w_def input_def)
qed
end
